theory Spec2Isabelle
  imports Complex_Main "HOL-Library.Word" "HOL-Library.AList"
begin

section \<open>BufferPool (src/services/buffer-pool.js)\<close>

text \<open>
  A buffer is a JavaScript typed array, compared by identity (\<open>Set.has\<close>): the model
  names a buffer by its allocation number. What a buffer holds lives in the pool
  record's \<open>memory\<close>: \<open>Zeroed\<close> is the all-zero array that \<open>create()\<close> and
  \<open>fill(0)\<close> leave, \<open>Bytes bs\<close> the array after \<open>bs\<close> was copied into it, and
  \<open>Detached\<close> the array whose \<open>ArrayBuffer\<close> was transferred to another thread
  (the transfer list of \<open>postMessage\<close>): it has no elements any more, and
  \<open>fill\<close> on it throws a \<open>TypeError\<close>.
  \<open>Date.now()\<close> is the argument \<open>now\<close> of each operation (one reading per call).
  Sizes and counters are JavaScript numbers holding integers; they are \<open>int\<close> where
  the code subtracts and \<open>nat\<close> where it only counts up.
\<close>

type_synonym buffer = nat

datatype contents = Zeroed | Bytes "8 word list" | Detached

datatype pool_error =
    UnknownBufferType string
  | InvalidOrUntrackedBuffer
  | FillOnDetachedBuffer
  | InitialLargerThanMax
  | NewSizeNotPositive
  | NewSizeSmallerThanInUse

datatype pool_event =
    PoolExhausted string int nat int
  | BufferReleased string nat nat int
  | PoolResized int int int

record buffer_config =
  elements :: nat
  size_bytes :: nat
  description :: string

definition BUFFER_CONFIGS :: "(string \<times> buffer_config) list" where
  "BUFFER_CONFIGS =
    [(''depth'', \<lparr>elements = 512 * 424, size_bytes = 512 * 424 * 2,
        description = ''Depth sensor frame buffer (512x424 16-bit)''\<rparr>),
     (''color'', \<lparr>elements = 1920 * 1080 * 4, size_bytes = 1920 * 1080 * 4,
        description = ''Color sensor frame buffer (1920x1080 32-bit)''\<rparr>),
     (''infrared'', \<lparr>elements = 512 * 424, size_bytes = 512 * 424 * 2,
        description = ''Infrared sensor frame buffer (512x424 16-bit)''\<rparr>),
     (''body'', \<lparr>elements = 25 * 3, size_bytes = 25 * 3 * 4,
        description = ''Body tracking data buffer (25 joints x 3 coordinates)''\<rparr>)]"

record pool = buffer_config +
  buffers :: "buffer list"
  inUse :: "buffer list"
  lastAccessed :: int

record pool_stats =
  hits :: nat
  misses :: nat
  created :: nat
  released :: nat
  poolSize :: int
  maxUsed :: nat
  lastResized :: "int option"

text \<open>The constructor's argument: a missing option is \<open>None\<close>.\<close>

record pool_options =
  opt_maxPoolSize :: "int option"
  opt_initialSize :: "int option"
  opt_expandSize :: "int option"
  opt_clearOnRelease :: "bool option"
  opt_trackStats :: "bool option"

record buffer_pool =
  pools :: "(string \<times> pool) list"
  clearOnRelease :: bool
  trackStats :: bool
  maxPoolSize :: int
  initialSize :: int
  expandSize :: int
  stats :: pool_stats
  pool_events :: "pool_event list"
  nextBuffer :: nat
  memory :: "buffer \<Rightarrow> contents"

text \<open>\<open>v || d\<close> on a number or a missing value: \<open>undefined\<close> and \<open>0\<close> are falsy.\<close>

definition or_default :: "int option \<Rightarrow> int \<Rightarrow> int" where
  "or_default v d = (case v of None \<Rightarrow> d | Some n \<Rightarrow> if n = 0 then d else n)"

text \<open>\<open>pool.create()\<close>: a new typed array, zero-filled, distinct from every other.\<close>

definition create :: "buffer_pool \<Rightarrow> buffer \<times> buffer_pool" where
  "create s =
     (nextBuffer s,
      s\<lparr>nextBuffer := Suc (nextBuffer s), memory := (memory s)(nextBuffer s := Zeroed)\<rparr>)"

text \<open>
  One round of the pre-allocation loops:
  \<open>pool.buffers.push(pool.create()); this.#stats.created++; this.#stats.poolSize++\<close>.
\<close>

definition push_new :: "string \<Rightarrow> buffer_pool \<Rightarrow> buffer_pool" where
  "push_new type s =
     (let (b, s1) = create s
      in s1\<lparr>pools := AList.map_entry type (\<lambda>p. p\<lparr>buffers := buffers p @ [b]\<rparr>) (pools s1),
            stats := (stats s1)\<lparr>created := created (stats s1) + 1,
                                poolSize := poolSize (stats s1) + 1\<rparr>\<rparr>)"

fun push_new_times :: "nat \<Rightarrow> string \<Rightarrow> buffer_pool \<Rightarrow> buffer_pool" where
  "push_new_times 0 type s = s"
| "push_new_times (Suc n) type s = push_new_times n type (push_new type s)"

text \<open>\<open>#initializePools\<close>: \<open>for (const [type, config] of Object.entries(BUFFER_CONFIGS))\<close>.\<close>

fun initializePools_loop ::
  "int \<Rightarrow> (string \<times> buffer_config) list \<Rightarrow> buffer_pool \<Rightarrow> buffer_pool" where
  "initializePools_loop now [] s = s"
| "initializePools_loop now ((type, config) # rest) s =
     (let pool = buffer_config.extend config
                   \<lparr>buffers = [], inUse = [], lastAccessed = now\<rparr>;
          s1 = s\<lparr>pools := AList.update type pool (pools s)\<rparr>;
          s2 = push_new_times (nat (initialSize s1)) type s1
      in initializePools_loop now rest s2)"

definition initializePools :: "int \<Rightarrow> buffer_pool \<Rightarrow> buffer_pool" where
  "initializePools now s = initializePools_loop now BUFFER_CONFIGS s"

definition initial_stats :: pool_stats where
  "initial_stats = \<lparr>hits = 0, misses = 0, created = 0, released = 0, poolSize = 0,
                     maxUsed = 0, lastResized = None\<rparr>"

text \<open>
  \<open>constructor(config)\<close> with \<open>#validateAndSetConfig\<close>. The argument is an object by
  its type, so the \<open>typeof config !== 'object'\<close> branch has no counterpart.
\<close>

definition new_BufferPool :: "int \<Rightarrow> pool_options \<Rightarrow> pool_error + buffer_pool" where
  "new_BufferPool now config =
     (let maxPoolSize' = max 1 (or_default (opt_maxPoolSize config) 20);
          initialSize' = max 1 (or_default (opt_initialSize config) 5);
          expandSize' = max 1 (or_default (opt_expandSize config) 2)
      in if initialSize' > maxPoolSize' then Inl InitialLargerThanMax
         else Inr (initializePools now
                \<lparr>pools = [],
                 clearOnRelease = (opt_clearOnRelease config \<noteq> Some False),
                 trackStats = (opt_trackStats config \<noteq> Some False),
                 maxPoolSize = maxPoolSize',
                 initialSize = initialSize',
                 expandSize = expandSize',
                 stats = initial_stats,
                 pool_events = [],
                 nextBuffer = 0,
                 memory = (\<lambda>_. Zeroed)\<rparr>))"

text \<open>\<open>#getBufferFromPool\<close>: pop the free list (a hit) or \<open>null\<close>.\<close>

definition getBufferFromPool :: "string \<Rightarrow> buffer_pool \<Rightarrow> buffer option \<times> buffer_pool" where
  "getBufferFromPool type s =
     (case map_of (pools s) type of
        None \<Rightarrow> (None, s)
      | Some pool \<Rightarrow>
          if length (buffers pool) > 0
          then (Some (last (buffers pool)),
                s\<lparr>stats := (stats s)\<lparr>hits := hits (stats s) + 1\<rparr>,
                  pools := AList.map_entry type
                             (\<lambda>p. p\<lparr>buffers := butlast (buffers p)\<rparr>) (pools s)\<rparr>)
          else (None, s))"

text \<open>\<open>#expandPoolAndGetBuffer\<close>: refuse at the cap, else create one buffer for the
  caller and up to \<open>expandSize - 1\<close> more for the free list.\<close>

definition expandPoolAndGetBuffer ::
  "int \<Rightarrow> string \<Rightarrow> buffer_pool \<Rightarrow> buffer option \<times> buffer_pool" where
  "expandPoolAndGetBuffer now type s =
     (if poolSize (stats s) \<ge> maxPoolSize s
      then (None,
            s\<lparr>pool_events := pool_events s @
                 [PoolExhausted type (poolSize (stats s))
                    (case map_of (pools s) type of None \<Rightarrow> 0 | Some p \<Rightarrow> length (inUse p))
                    now]\<rparr>)
      else
        (let s1 = s\<lparr>stats := (stats s)\<lparr>misses := misses (stats s) + 1\<rparr>\<rparr>;
             (b, s2) = create s1;
             s3 = s2\<lparr>stats := (stats s2)\<lparr>created := created (stats s2) + 1,
                                          poolSize := poolSize (stats s2) + 1\<rparr>\<rparr>;
             buffersToAdd = min (expandSize s3 - 1) (maxPoolSize s3 - poolSize (stats s3))
         in (Some b, push_new_times (nat buffersToAdd) type s3)))"

text \<open>\<open>Set.add\<close>: no effect when the element is already there.\<close>

definition set_add :: "'a \<Rightarrow> 'a list \<Rightarrow> 'a list" where
  "set_add x xs = (if x \<in> set xs then xs else xs @ [x])"

definition acquire ::
  "int \<Rightarrow> string \<Rightarrow> buffer_pool \<Rightarrow> (pool_error + buffer option) \<times> buffer_pool" where
  "acquire now type s =
     (case map_of (pools s) type of
        None \<Rightarrow> (Inl (UnknownBufferType type), s)
      | Some _ \<Rightarrow>
          (let s1 = s\<lparr>pools := AList.map_entry type (\<lambda>p. p\<lparr>lastAccessed := now\<rparr>) (pools s)\<rparr>;
               (buffer, s2) = getBufferFromPool type s1;
               (buffer', s3) = (case buffer of
                                  None \<Rightarrow> expandPoolAndGetBuffer now type s2
                                | Some b \<Rightarrow> (Some b, s2))
           in case buffer' of
                None \<Rightarrow> (Inr None, s3)
              | Some b \<Rightarrow>
                  (let s4 = s3\<lparr>pools := AList.map_entry type
                                            (\<lambda>p. p\<lparr>inUse := set_add b (inUse p)\<rparr>) (pools s3)\<rparr>;
                       used = (case map_of (pools s4) type of
                                 None \<Rightarrow> 0 | Some p \<Rightarrow> length (inUse p))
                   in (Inr (Some b),
                       s4\<lparr>stats := (stats s4)\<lparr>maxUsed := max (maxUsed (stats s4)) used\<rparr>\<rparr>))))"

text \<open>
  \<open>release(type, buffer)\<close>: the two \<open>throw\<close>s come before any assignment. The buffer
  argument is \<open>None\<close> for \<open>null\<close>/\<open>undefined\<close> (\<open>!buffer\<close>). With
  \<open>clearOnRelease\<close>, \<open>buffer.fill(0)\<close> comes next, and it throws on a detached
  buffer, again before any assignment. The returned pair is the outcome and the pool
  after the call, also when the call throws.
\<close>

definition release ::
  "int \<Rightarrow> string \<Rightarrow> buffer option \<Rightarrow> buffer_pool \<Rightarrow> (pool_error + unit) \<times> buffer_pool" where
  "release now type buffer s =
     (case map_of (pools s) type of
        None \<Rightarrow> (Inl (UnknownBufferType type), s)
      | Some pool \<Rightarrow>
          (case buffer of
             None \<Rightarrow> (Inl InvalidOrUntrackedBuffer, s)
           | Some b \<Rightarrow>
               if b \<notin> set (inUse pool) then (Inl InvalidOrUntrackedBuffer, s)
               else if clearOnRelease s \<and> memory s b = Detached
               then (Inl FillOnDetachedBuffer, s)
               else
                 (let s1 = (if clearOnRelease s then s\<lparr>memory := (memory s)(b := Zeroed)\<rparr> else s);
                      s2 = s1\<lparr>pools := AList.map_entry type
                                  (\<lambda>p. p\<lparr>buffers := buffers p @ [b],
                                         inUse := removeAll b (inUse p)\<rparr>) (pools s1)\<rparr>;
                      s3 = s2\<lparr>stats := (stats s2)\<lparr>released := released (stats s2) + 1\<rparr>\<rparr>;
                      (avail, used) = (case map_of (pools s3) type of
                                         None \<Rightarrow> (0, 0)
                                       | Some p \<Rightarrow> (length (buffers p), length (inUse p)))
                  in (Inr (), s3\<lparr>pool_events := pool_events s3 @
                                   [BufferReleased type avail used now]\<rparr>))))"

text \<open>
  \<open>#shrinkPools\<close>: the \<open>while\<close> loop of one pool. It compares this pool's own buffers
  with \<open>#maxPoolSize\<close> and pops while the pool alone is above it.
\<close>

function shrink_pool :: "int \<Rightarrow> pool \<times> int \<Rightarrow> pool \<times> int" where
  "shrink_pool m (p, n) =
     (if int (length (buffers p) + length (inUse p)) > m \<and> length (buffers p) > 0
      then shrink_pool m (p\<lparr>buffers := butlast (buffers p)\<rparr>, n - 1)
      else (p, n))"
  by pat_completeness auto
termination
  by (relation "measure (\<lambda>(m, p, n). length (buffers p))") auto

fun shrinkPools_loop :: "int \<Rightarrow> (string \<times> pool) list \<Rightarrow> int \<Rightarrow> (string \<times> pool) list \<times> int" where
  "shrinkPools_loop m [] n = ([], n)"
| "shrinkPools_loop m ((type, p) # rest) n =
     (let (p', n') = shrink_pool m (p, n);
          (rest', n'') = shrinkPools_loop m rest n'
      in ((type, p') # rest', n''))"

definition shrinkPools :: "buffer_pool \<Rightarrow> buffer_pool" where
  "shrinkPools s =
     (let (ps, n) = shrinkPools_loop (maxPoolSize s) (pools s) (poolSize (stats s))
      in s\<lparr>pools := ps, stats := (stats s)\<lparr>poolSize := n\<rparr>\<rparr>)"

text \<open>\<open>resize(newSize)\<close>; \<open>newSize\<close> is a number by its type.\<close>

definition resize :: "int \<Rightarrow> int \<Rightarrow> buffer_pool \<Rightarrow> (pool_error + unit) \<times> buffer_pool" where
  "resize now newSize s =
     (if newSize < 1 then (Inl NewSizeNotPositive, s)
      else
        (let totalInUse = (\<Sum>(t, p) \<leftarrow> pools s. int (length (inUse p)))
         in if totalInUse > newSize then (Inl NewSizeSmallerThanInUse, s)
            else
              (let s1 = shrinkPools (s\<lparr>maxPoolSize := newSize\<rparr>);
                   s2 = s1\<lparr>stats := (stats s1)\<lparr>lastResized := Some now\<rparr>\<rparr>
               in (Inr (), s2\<lparr>pool_events := pool_events s2 @
                                [PoolResized (maxPoolSize s2) (poolSize (stats s2)) now]\<rparr>))))"

text \<open>The buffers the pool really holds, free and outstanding, over all kinds.\<close>

definition total_buffers :: "buffer_pool \<Rightarrow> nat" where
  "total_buffers s = (\<Sum>(t, p) \<leftarrow> pools s. length (buffers p) + length (inUse p))"


section \<open>BaseSensor (src/services/sensors/base-sensor.js)\<close>

text \<open>
  The sensor's collaborators are outside the class: the driver call of
  \<open>_initializeReader\<close>, the \<open>Worker\<close> constructor, \<open>_setupEventListeners\<close>,
  \<open>_cleanupResources\<close> and \<open>worker.terminate()\<close>. A \<open>hooks\<close> record says, for
  one call of a lifecycle method, which of them throws (\<open>Some e\<close>) and which returns.
  \<open>performance.now()\<close> is the argument \<open>now\<close>. A worker is the number of the
  \<open>Worker\<close> object created, a timer the number of the \<open>setInterval\<close> call.
\<close>

datatype sensor_error =
    PoolError pool_error
  | InvalidFrameSize nat nat
  | HookError string
  | DataCloneError
  | WorkerIsNull

datatype sensor_event = Started | Stopped | ErrorEvent sensor_error

datatype log_entry = Log string string | LogError string sensor_error

record hooks =
  initializeReader_throws :: "sensor_error option"
  newWorker_throws :: "sensor_error option"
  setupEventListeners_throws :: "sensor_error option"
  cleanupResources_throws :: "sensor_error option"
  terminate_throws :: "sensor_error option"

definition NUMBER_MAX_VALUE :: real where
  "NUMBER_MAX_VALUE = (2 - 1 / 2 ^ 52) * 2 ^ 1023"

record performance_stats =
  processTime :: real
  maxProcessTime :: real
  minProcessTime :: real
  totalProcessTime :: real
  missedFrames :: nat
  lastUpdate :: real

record base_sensor =
  sensor_type :: string
  isRunning :: bool
  frameCount :: nat
  lastFrameTime :: real
  fps :: nat
  worker :: "nat option"
  workersCreated :: nat
  workersTerminated :: "nat list"
  workerRestartAttempts :: nat
  maxWorkerRestarts :: nat
  frameTimeout :: nat
  healthCheckInterval :: "nat option"
  timersSet :: nat
  listening :: bool
  performanceStats :: performance_stats
  sensor_events :: "sensor_event list"
  logs :: "log_entry list"

definition createInitialStats :: "real \<Rightarrow> performance_stats" where
  "createInitialStats now =
     \<lparr>processTime = 0, maxProcessTime = 0, minProcessTime = NUMBER_MAX_VALUE,
      totalProcessTime = 0, missedFrames = 0, lastUpdate = now\<rparr>"

text \<open>
  The constructor: \<open>config.worker?.maxRestarts || 3\<close> and
  \<open>config.worker?.frameTimeout || 5000\<close> arrive as options (missing or \<open>0\<close> gives
  the default); \<open>workerRestartAttempts\<close> starts at \<open>0\<close>.
\<close>

definition nat_or_default :: "nat option \<Rightarrow> nat \<Rightarrow> nat" where
  "nat_or_default v d = (case v of None \<Rightarrow> d | Some n \<Rightarrow> if n = 0 then d else n)"

definition new_BaseSensor :: "real \<Rightarrow> string \<Rightarrow> nat option \<Rightarrow> nat option \<Rightarrow> base_sensor" where
  "new_BaseSensor now type maxRestarts timeout =
     \<lparr>sensor_type = type, isRunning = False, frameCount = 0, lastFrameTime = now, fps = 0,
      worker = None, workersCreated = 0, workersTerminated = [],
      workerRestartAttempts = 0,
      maxWorkerRestarts = nat_or_default maxRestarts 3,
      frameTimeout = nat_or_default timeout 5000,
      healthCheckInterval = None, timersSet = 0, listening = False,
      performanceStats = createInitialStats now,
      sensor_events = [], logs = []\<rparr>"

text \<open>\<open>_initializeWorker\<close>: \<open>new Worker(...)\<close>, the event handlers, and
  \<open>_startWorkerHealthCheck\<close>, which replaces the interval timer.\<close>

definition initializeWorker ::
  "hooks \<Rightarrow> 'a base_sensor_scheme \<Rightarrow> (sensor_error + unit) \<times> 'a base_sensor_scheme" where
  "initializeWorker h s =
     (case newWorker_throws h of
        Some e \<Rightarrow> (Inl e, s)
      | None \<Rightarrow>
          (Inr (), s\<lparr>worker := Some (workersCreated s),
                     workersCreated := Suc (workersCreated s),
                     healthCheckInterval := Some (timersSet s),
                     timersSet := Suc (timersSet s)\<rparr>))"

text \<open>The \<open>catch\<close> block of \<open>start()\<close>: it resets \<open>isRunning\<close> and rethrows.\<close>

definition start_failed ::
  "sensor_error \<Rightarrow> 'a base_sensor_scheme \<Rightarrow> (sensor_error + unit) \<times> 'a base_sensor_scheme" where
  "start_failed e s =
     (Inl e, s\<lparr>isRunning := False,
               logs := logs s @ [LogError (''Failed to start '' @ sensor_type s @ '' sensor:'') e],
               sensor_events := sensor_events s @ [ErrorEvent e]\<rparr>)"

definition start ::
  "hooks \<Rightarrow> real \<Rightarrow> 'a base_sensor_scheme \<Rightarrow> (sensor_error + unit) \<times> 'a base_sensor_scheme" where
  "start h now s =
     (if isRunning s then (Inr (), s)
      else
        (let s1 = s\<lparr>logs := logs s @ [Log ''info'' (''Starting '' @ sensor_type s @ '' sensor...'')],
                    isRunning := True, frameCount := 0, lastFrameTime := now\<rparr>
         in case initializeReader_throws h of
              Some e \<Rightarrow> start_failed e s1
            | None \<Rightarrow>
                (case initializeWorker h s1 of
                   (Inl e, s2) \<Rightarrow> start_failed e s2
                 | (Inr _, s2) \<Rightarrow>
                     (case setupEventListeners_throws h of
                        Some e \<Rightarrow> start_failed e s2
                      | None \<Rightarrow>
                          (Inr (),
                           s2\<lparr>listening := True,
                              logs := logs s2 @
                                [Log ''info'' (sensor_type s2 @ '' sensor started successfully'')],
                              sensor_events := sensor_events s2 @ [Started]\<rparr>)))))"

definition stop ::
  "hooks \<Rightarrow> 'a base_sensor_scheme \<Rightarrow> (sensor_error + unit) \<times> 'a base_sensor_scheme" where
  "stop h s =
     (if \<not> isRunning s then (Inr (), s)
      else
        (let s1 = s\<lparr>logs := logs s @ [Log ''info'' (''Stopping '' @ sensor_type s @ '' sensor...'')],
                    isRunning := False\<rparr>
         in case cleanupResources_throws h of
              Some e \<Rightarrow>
                (Inl e,
                 s1\<lparr>logs := logs s1 @
                      [LogError (''Error stopping '' @ sensor_type s1 @ '' sensor:'') e],
                    sensor_events := sensor_events s1 @ [ErrorEvent e]\<rparr>)
            | None \<Rightarrow>
                (Inr (),
                 s1\<lparr>logs := logs s1 @
                      [Log ''info'' (sensor_type s1 @ '' sensor stopped successfully'')],
                    sensor_events := sensor_events s1 @ [Stopped]\<rparr>)))"

text \<open>
  \<open>_handleWorkerError\<close>: at the bound it stops the sensor; below it, it counts the
  attempt, terminates the worker and creates a new one. Nothing here or elsewhere in
  the class assigns \<open>workerRestartAttempts\<close> but the constructor and the increment.
\<close>

definition handleWorkerError ::
  "hooks \<Rightarrow> 'a base_sensor_scheme \<Rightarrow> (sensor_error + unit) \<times> 'a base_sensor_scheme" where
  "handleWorkerError h s =
     (if workerRestartAttempts s \<ge> maxWorkerRestarts s
      then stop h (s\<lparr>logs := logs s @ [Log ''error'' ''Max worker restart attempts reached'']\<rparr>)
      else
        (let s1 = s\<lparr>workerRestartAttempts := workerRestartAttempts s + 1\<rparr>;
             s2 = s1\<lparr>logs := logs s1 @ [Log ''info'' ''Attempting worker restart'']\<rparr>
         in case worker s2 of
              None \<Rightarrow> initializeWorker h s2
            | Some w \<Rightarrow>
                (case terminate_throws h of
                   Some e \<Rightarrow> (Inl e, s2)
                 | None \<Rightarrow>
                     initializeWorker h
                       (s2\<lparr>workersTerminated := workersTerminated s2 @ [w]\<rparr>))))"

text \<open>The worker's \<open>'error'\<close> listener of \<open>_setupWorkerEventHandlers\<close>.\<close>

definition worker_error_event ::
  "hooks \<Rightarrow> sensor_error \<Rightarrow> 'a base_sensor_scheme \<Rightarrow>
     (sensor_error + unit) \<times> 'a base_sensor_scheme" where
  "worker_error_event h e s =
     handleWorkerError h
       (s\<lparr>logs := logs s @ [LogError (sensor_type s @ '' worker error:'') e],
          sensor_events := sensor_events s @ [ErrorEvent e]\<rparr>)"


section \<open>DepthSensor (src/services/sensors/depth-sensor.js)\<close>

text \<open>
  The message \<open>postMessage\<close> hands to the worker carries the buffer and what it holds at
  that moment. The call names the buffer's \<open>ArrayBuffer\<close> in its transfer list
  (\<open>[this.currentBuffer.buffer]\<close>): the memory moves to the worker and the sensor's
  own array is detached from then on. The frame the driver delivers is a Node
  \<open>Buffer\<close>, a list of bytes.
\<close>

datatype worker_message = ProcessFrameMsg buffer contents | HealthCheckMsg

record depth_sensor = base_sensor +
  frameWidth :: nat
  frameHeight :: nat
  frameQueue :: "buffer list"
  maxQueueSize :: int
  currentBuffer :: "buffer option"
  bufferPool :: buffer_pool
  posted :: "worker_message list"

definition new_DepthSensor ::
  "real \<Rightarrow> nat \<Rightarrow> nat \<Rightarrow> int \<Rightarrow> nat option \<Rightarrow> nat option \<Rightarrow> buffer_pool \<Rightarrow> depth_sensor" where
  "new_DepthSensor now width height maxQueue maxRestarts timeout bp =
     base_sensor.extend (new_BaseSensor now ''depth'' maxRestarts timeout)
       \<lparr>frameWidth = width, frameHeight = height, frameQueue = [],
        maxQueueSize = maxQueue, currentBuffer = None, bufferPool = bp, posted = []\<rparr>"

text \<open>
  Modelled from the spec: \<open>acquireBuffer\<close>, which \<open>_processFrame\<close> calls on the
  sensor and no source file of the repository defines. The spec has the sensor own a
  BufferPool reference (the field \<open>bufferPool\<close> above) and "acquire a buffer of the
  kind; if the pool returns none, drop this frame": the helper hands the call to the
  pool's \<open>acquire\<close>, its error included.
\<close>

definition acquireBuffer ::
  "int \<Rightarrow> string \<Rightarrow> depth_sensor \<Rightarrow> (pool_error + buffer option) \<times> depth_sensor" where
  "acquireBuffer now type s =
     (let (r, bp) = acquire now type (bufferPool s) in (r, s\<lparr>bufferPool := bp\<rparr>))"

text \<open>
  Modelled from the spec: \<open>releaseBuffer\<close>, which the sensor calls and no source file
  of the repository defines. The spec has the sensor "return its buffer to the pool":
  the helper hands the call to the pool's \<open>release\<close>, its error included.
\<close>

definition releaseBuffer ::
  "int \<Rightarrow> string \<Rightarrow> buffer option \<Rightarrow> depth_sensor \<Rightarrow> (pool_error + unit) \<times> depth_sensor" where
  "releaseBuffer now type b s =
     (let (r, bp) = release now type b (bufferPool s) in (r, s\<lparr>bufferPool := bp\<rparr>))"

text \<open>
  The \<open>catch\<close> block of \<open>_processFrame\<close>. An error thrown by the release inside it
  leaves the method (\<open>Inl\<close>).
\<close>

definition processFrame_catch ::
  "int \<Rightarrow> sensor_error \<Rightarrow> depth_sensor \<Rightarrow> (sensor_error + unit) \<times> depth_sensor" where
  "processFrame_catch now e s =
     (let s1 = s\<lparr>logs := logs s @ [LogError ''Error processing depth frame:'' e],
                 sensor_events := sensor_events s @ [ErrorEvent e]\<rparr>
      in case currentBuffer s1 of
           None \<Rightarrow> (Inr (), s1)
         | Some b \<Rightarrow>
             (case releaseBuffer now ''depth'' (Some b) s1 of
                (Inl e', s2) \<Rightarrow> (Inl (PoolError e'), s2)
              | (Inr _, s2) \<Rightarrow> (Inr (), s2\<lparr>currentBuffer := None\<rparr>)))"

text \<open>
  \<open>depthFrame.copy(this.currentBuffer)\<close>: a detached target has no room, and nothing
  is copied into it.
\<close>

definition copy_into :: "8 word list \<Rightarrow> buffer \<Rightarrow> buffer_pool \<Rightarrow> buffer_pool" where
  "copy_into depthFrame b bp =
     (if memory bp b = Detached then bp
      else bp\<lparr>memory := (memory bp)(b := Bytes depthFrame)\<rparr>)"

text \<open>
  \<open>this.worker.postMessage({type, buffer, config}, [buffer.buffer])\<close>: calling it on a
  missing worker is a \<open>TypeError\<close>, and a detached \<open>ArrayBuffer\<close> in the transfer
  list a \<open>DataCloneError\<close>; otherwise the worker gets the message and the buffer is
  detached on the sensor's side.
\<close>

definition postMessage_transfer :: "buffer \<Rightarrow> depth_sensor \<Rightarrow> (sensor_error + unit) \<times> depth_sensor" where
  "postMessage_transfer b s =
     (case worker s of
        None \<Rightarrow> (Inl WorkerIsNull, s)
      | Some _ \<Rightarrow>
          if memory (bufferPool s) b = Detached then (Inl DataCloneError, s)
          else (Inr (),
                s\<lparr>posted := posted s @ [ProcessFrameMsg b (memory (bufferPool s) b)],
                  bufferPool := (bufferPool s)
                    \<lparr>memory := (memory (bufferPool s))(b := Detached)\<rparr>\<rparr>))"

text \<open>
  \<open>_processFrame(depthFrame)\<close>. When the queue is full the method shifts the oldest
  buffer out, releases it, counts one missed frame and returns: the frame that arrived
  is neither copied, queued nor posted. The count comes after the release, so a
  release that throws leaves it out. \<open>Array.shift\<close> on an empty queue gives
  \<open>undefined\<close>.
\<close>

definition depth_processFrame ::
  "int \<Rightarrow> 8 word list \<Rightarrow> depth_sensor \<Rightarrow> (sensor_error + unit) \<times> depth_sensor" where
  "depth_processFrame now depthFrame s =
     (if \<not> isRunning s then (Inr (), s)
      else
        (let expectedSize = frameWidth s * frameHeight s * 2
         in if length depthFrame \<noteq> expectedSize
            then processFrame_catch now (InvalidFrameSize (length depthFrame) expectedSize) s
            else if int (length (frameQueue s)) \<ge> maxQueueSize s
            then
              (let s1 = s\<lparr>logs := logs s @
                            [Log ''warn'' ''Frame queue full, dropping oldest frame'']\<rparr>;
                   oldFrame = (case frameQueue s1 of [] \<Rightarrow> None | b # _ \<Rightarrow> Some b);
                   s2 = s1\<lparr>frameQueue := tl (frameQueue s1)\<rparr>
               in case releaseBuffer now ''depth'' oldFrame s2 of
                    (Inl e, s3) \<Rightarrow> processFrame_catch now (PoolError e) s3
                  | (Inr _, s3) \<Rightarrow>
                      (Inr (),
                       s3\<lparr>performanceStats := (performanceStats s3)
                            \<lparr>missedFrames := missedFrames (performanceStats s3) + 1\<rparr>\<rparr>))
            else
              (case acquireBuffer now ''depth'' s of
                 (Inl e, s1) \<Rightarrow> processFrame_catch now (PoolError e) s1
               | (Inr None, s1) \<Rightarrow> (Inr (), s1\<lparr>currentBuffer := None\<rparr>)
               | (Inr (Some b), s1) \<Rightarrow>
                   (let s2 = s1\<lparr>currentBuffer := Some b\<rparr>;
                        s3 = s2\<lparr>bufferPool := copy_into depthFrame b (bufferPool s2)\<rparr>;
                        s4 = s3\<lparr>frameQueue := frameQueue s3 @ [b]\<rparr>
                    in case postMessage_transfer b s4 of
                         (Inl e, s5) \<Rightarrow> processFrame_catch now e s5
                       | (Inr _, s5) \<Rightarrow> (Inr (), s5)))))"

text \<open>
  The driver's \<open>'depth'\<close> event delivering a list of frames one after the other, with
  no worker reply in between. An exception that leaves the listener goes to the
  emitter; the next frame is delivered all the same. The result lists the outcome of
  every call.
\<close>

fun depth_frames ::
  "int \<Rightarrow> 8 word list list \<Rightarrow> depth_sensor \<Rightarrow> (sensor_error + unit) list \<times> depth_sensor" where
  "depth_frames now [] s = ([], s)"
| "depth_frames now (f # fs) s =
     (case depth_processFrame now f s of
        (r, s') \<Rightarrow> (case depth_frames now fs s' of (rs, s'') \<Rightarrow> (r # rs, s'')))"


section \<open>MultiSourceReader (multi-source-reader.js)\<close>

text \<open>
  The frame buffer is a JavaScript \<open>Map\<close>, which keeps its keys in insertion order: an
  association list with \<open>AList.update\<close> for \<open>Map.set\<close> and \<open>AList.delete\<close> for
  \<open>Map.delete\<close>. A frame's payload is opaque (a number stands for it); a multi-source
  frame of the driver is the list of the kinds it carries, each with its payload.
  \<open>Date.now()\<close> is the argument \<open>timestamp\<close>, an integer number of milliseconds.
\<close>

record slot =
  slot_frame :: nat
  slot_timestamp :: int

datatype msr_event =
    MsrStarted
  | MsrStopped
  | SynchronizedFrame int "(string \<times> nat) list"
  | FrameDropped string int int
  | BufferOverflow string nat int
  | MsrError string

record msr_stats =
  syncedFrames :: nat
  droppedFrames :: nat
  lastSyncDelay :: int
  stat_maxSyncDelay :: int
  frameDelays :: "(string \<times> int) list"
  bufferOverflows :: nat
  syncAttempts :: nat

record frame_sync_options =
  opt_syncWindow :: "int option"
  opt_maxDelay :: "int option"
  opt_dropAfter :: "int option"
  opt_bufferSize :: "int option"

record multi_source_reader =
  frameTypes :: nat
  requiredFrameTypes :: "string list"
  syncWindow :: int
  maxSyncDelay :: int
  dropFramesAfter :: int
  bufferSize :: int
  running :: bool
  frameBuffer :: "(string \<times> slot) list"
  lastSyncTime :: int
  msr_stats :: msr_stats
  msr_events :: "msr_event list"

text \<open>\<open>Kinect2.FrameType\<close> of the driver library: one bit per stream.\<close>

definition frameTypeMap :: "(string \<times> nat) list" where
  "frameTypeMap = [(''depth'', 8), (''color'', 1), (''body'', 32), (''infrared'', 2)]"

text \<open>
  \<open>#configureFrameTypes\<close>: the \<open>reduce\<close> over \<open>Object.entries(config.sensors)\<close>; a
  sensor entry is its key and its \<open>enabled\<close> flag.
\<close>

fun configureFrameTypes_loop ::
  "(string \<times> bool) list \<Rightarrow> nat \<times> string list \<Rightarrow> nat \<times> string list" where
  "configureFrameTypes_loop [] acc = acc"
| "configureFrameTypes_loop ((key, enabled) # rest) (types, required) =
     (case map_of frameTypeMap key of
        Some flag \<Rightarrow>
          if enabled \<and> flag \<noteq> 0
          then configureFrameTypes_loop rest (or types flag, set_add key required)
          else configureFrameTypes_loop rest (types, required)
      | None \<Rightarrow> configureFrameTypes_loop rest (types, required))"

definition initial_msr_stats :: msr_stats where
  "initial_msr_stats =
     \<lparr>syncedFrames = 0, droppedFrames = 0, lastSyncDelay = 0, stat_maxSyncDelay = 0,
      frameDelays = [], bufferOverflows = 0, syncAttempts = 0\<rparr>"

datatype msr_error = NoFrameTypeEnabled | AlreadyRunning | OpenFailed

definition new_MultiSourceReader ::
  "frame_sync_options \<Rightarrow> (string \<times> bool) list \<Rightarrow> msr_error + multi_source_reader" where
  "new_MultiSourceReader frameSync sensors =
     (let (types, required) = configureFrameTypes_loop sensors (0, [])
      in if types = 0 then Inl NoFrameTypeEnabled
         else Inr \<lparr>frameTypes = types, requiredFrameTypes = required,
                   syncWindow = or_default (opt_syncWindow frameSync) 33,
                   maxSyncDelay = or_default (opt_maxDelay frameSync) 100,
                   dropFramesAfter = or_default (opt_dropAfter frameSync) 66,
                   bufferSize = or_default (opt_bufferSize frameSync) 5,
                   running = False, frameBuffer = [], lastSyncTime = 0,
                   msr_stats = initial_msr_stats, msr_events = []\<rparr>)"

definition resetState :: "multi_source_reader \<Rightarrow> multi_source_reader" where
  "resetState s = s\<lparr>frameBuffer := [], msr_stats := initial_msr_stats, lastSyncTime := 0\<rparr>"

text \<open>\<open>start()\<close>; \<open>opened\<close> is what the driver's \<open>openMultiSourceReader\<close> returns.\<close>

definition msr_start ::
  "bool \<Rightarrow> multi_source_reader \<Rightarrow> (msr_error + unit) \<times> multi_source_reader" where
  "msr_start opened s =
     (if running s then (Inl AlreadyRunning, s)
      else
        (let s1 = resetState s
         in if \<not> opened
            then (Inl OpenFailed,
                  s1\<lparr>msr_events := msr_events s1 @ [MsrError ''Failed to start reader'']\<rparr>)
            else (Inr (), s1\<lparr>running := True, msr_events := msr_events s1 @ [MsrStarted]\<rparr>)))"

definition handleBufferOverflow :: "string \<Rightarrow> int \<Rightarrow> multi_source_reader \<Rightarrow> multi_source_reader" where
  "handleBufferOverflow frameType timestamp s =
     s\<lparr>msr_stats := (msr_stats s)\<lparr>bufferOverflows := bufferOverflows (msr_stats s) + 1\<rparr>,
       msr_events := msr_events s @
         [BufferOverflow frameType (length (frameBuffer s)) timestamp]\<rparr>"

definition bufferFrame ::
  "string \<Rightarrow> nat \<Rightarrow> int \<Rightarrow> multi_source_reader \<Rightarrow> multi_source_reader" where
  "bufferFrame frameType frameData timestamp s =
     (if int (length (frameBuffer s)) \<ge> bufferSize s
      then handleBufferOverflow frameType timestamp s
      else s\<lparr>frameBuffer := AList.update frameType
                               \<lparr>slot_frame = frameData, slot_timestamp = timestamp\<rparr>
                               (frameBuffer s),
             msr_stats := (msr_stats s)
               \<lparr>frameDelays := AList.update frameType (timestamp - lastSyncTime s)
                                  (frameDelays (msr_stats s))\<rparr>\<rparr>)"

fun processFrameData_loop ::
  "string list \<Rightarrow> (string \<times> nat) list \<Rightarrow> int \<Rightarrow> multi_source_reader \<Rightarrow> multi_source_reader" where
  "processFrameData_loop [] frame timestamp s = s"
| "processFrameData_loop (frameType # rest) frame timestamp s =
     processFrameData_loop rest frame timestamp
       (case map_of frame frameType of
          Some d \<Rightarrow> bufferFrame frameType d timestamp s
        | None \<Rightarrow> s)"

definition processFrameData ::
  "(string \<times> nat) list \<Rightarrow> int \<Rightarrow> multi_source_reader \<Rightarrow> multi_source_reader" where
  "processFrameData frame timestamp s =
     processFrameData_loop (requiredFrameTypes s) frame timestamp s"

definition isFrameBufferComplete :: "multi_source_reader \<Rightarrow> bool" where
  "isFrameBufferComplete s =
     list_all (\<lambda>type. map_of (frameBuffer s) type \<noteq> None) (requiredFrameTypes s)"

definition updateSyncStats :: "int \<Rightarrow> multi_source_reader \<Rightarrow> multi_source_reader" where
  "updateSyncStats timestamp s =
     (let d = timestamp - lastSyncTime s
      in s\<lparr>msr_stats := (msr_stats s)
              \<lparr>syncedFrames := syncedFrames (msr_stats s) + 1,
               lastSyncDelay := d,
               stat_maxSyncDelay := max (stat_maxSyncDelay (msr_stats s)) d\<rparr>,
            lastSyncTime := timestamp\<rparr>)"

definition emitSynchronizedFrame :: "int \<Rightarrow> multi_source_reader \<Rightarrow> multi_source_reader" where
  "emitSynchronizedFrame timestamp s =
     (let syncedFrame = SynchronizedFrame timestamp
                          (map (\<lambda>(type, d). (type, slot_frame d)) (frameBuffer s));
          s1 = updateSyncStats timestamp s;
          s2 = s1\<lparr>frameBuffer := []\<rparr>
      in s2\<lparr>msr_events := msr_events s2 @ [syncedFrame]\<rparr>)"

text \<open>
  \<open>#dropStaleFrames\<close>: the loop visits every entry the map had; deleting the current
  entry of a \<open>Map\<close> while iterating over it is allowed.
\<close>

fun dropStaleFrames_loop ::
  "int \<Rightarrow> (string \<times> slot) list \<Rightarrow> multi_source_reader \<Rightarrow> multi_source_reader" where
  "dropStaleFrames_loop timestamp [] s = s"
| "dropStaleFrames_loop timestamp ((frameType, d) # rest) s =
     dropStaleFrames_loop timestamp rest
       (if timestamp - slot_timestamp d > dropFramesAfter s
        then s\<lparr>frameBuffer := AList.delete frameType (frameBuffer s),
               msr_stats := (msr_stats s)\<lparr>droppedFrames := droppedFrames (msr_stats s) + 1\<rparr>,
               msr_events := msr_events s @
                 [FrameDropped frameType (slot_timestamp d) (timestamp - slot_timestamp d)]\<rparr>
        else s)"

definition dropStaleFrames :: "int \<Rightarrow> multi_source_reader \<Rightarrow> multi_source_reader" where
  "dropStaleFrames timestamp s = dropStaleFrames_loop timestamp (frameBuffer s) s"

text \<open>
  \<open>#checkSynchronization\<close>. An incomplete buffer returns at once, before any look at
  the slots' ages. With no slot at all \<open>Math.max()\<close> is \<open>-Infinity\<close> and
  \<open>Math.min()\<close> is \<open>Infinity\<close>, their difference \<open>-Infinity\<close>, below any window.
\<close>

definition checkSynchronization :: "int \<Rightarrow> multi_source_reader \<Rightarrow> multi_source_reader" where
  "checkSynchronization timestamp s =
     (let s1 = s\<lparr>msr_stats := (msr_stats s)\<lparr>syncAttempts := syncAttempts (msr_stats s) + 1\<rparr>\<rparr>
      in if \<not> isFrameBufferComplete s1 then s1
         else
           (case map (\<lambda>(type, d). timestamp - slot_timestamp d) (frameBuffer s1) of
              [] \<Rightarrow> emitSynchronizedFrame timestamp s1
            | d # ds \<Rightarrow>
                (let maxDelay = fold max ds d;
                     minDelay = fold min ds d
                 in if maxDelay - minDelay \<le> syncWindow s1
                    then emitSynchronizedFrame timestamp s1
                    else if maxDelay > dropFramesAfter s1
                    then dropStaleFrames timestamp s1
                    else s1)))"

text \<open>\<open>#handleMultiSourceFrame\<close>; a \<open>null\<close> frame is \<open>None\<close>.\<close>

definition handleMultiSourceFrame ::
  "(string \<times> nat) list option \<Rightarrow> int \<Rightarrow> multi_source_reader \<Rightarrow> multi_source_reader" where
  "handleMultiSourceFrame frame timestamp s =
     (case frame of
        None \<Rightarrow> s
      | Some f \<Rightarrow>
          if \<not> running s then s
          else checkSynchronization timestamp (processFrameData f timestamp s))"

text \<open>The events a step added to the reader's record of emitted events.\<close>

definition emitted :: "multi_source_reader \<Rightarrow> multi_source_reader \<Rightarrow> msr_event list" where
  "emitted s s' = drop (length (msr_events s)) (msr_events s')"


section \<open>WebSocketService (websocket-service.js)\<close>

text \<open>
  What \<open>JSON.parse\<close> returns is a \<open>json\<close> value (an object's keys are distinct);
  a text that is not JSON is \<open>None\<close>. A connection is the \<open>ws\<close> library's socket
  as the server's \<open>'connection'\<close> listener gets it (open, never connecting): its ready
  state, the \<open>clientInfo\<close> the service attaches, the messages sent to the subscriber
  so far, the code and reason of the close frame if one was sent, whether the
  identification timer is still pending, and whether its \<open>send\<close> throws (an I/O
  failure, outside the service's control).
\<close>

datatype json =
    JNull
  | JBool bool
  | JNum int
  | JStr string
  | JArr "json list"
  | JObj "(string \<times> json) list"


datatype ws_error =
    SyntaxError
  | InvalidMessageFormat
  | ClientNotIdentified
  | SendFailed
  | InvalidCloseCode
  | CloseReasonTooLong

fun error_message :: "ws_error \<Rightarrow> string" where
  "error_message SyntaxError = ''Unexpected token in JSON''"
| "error_message InvalidMessageFormat = ''Invalid message format''"
| "error_message ClientNotIdentified = ''Client not identified''"
| "error_message SendFailed = ''send failed''"
| "error_message InvalidCloseCode = ''First argument must be a valid error code number''"
| "error_message CloseReasonTooLong = ''The message must not be greater than 123 bytes''"

datatype ready_state = OPEN | CLOSING | CLOSED

datatype server_message =
    IdentifyRequest string
  | Welcome string string string
  | ErrorMessage string

record client_info =
  ci_id :: string
  ci_name :: json
  ci_version :: json
  ci_platform :: json
  ci_capabilities :: json
  ci_connectedAt :: string

record websocket =
  ws_id :: nat
  readyState :: ready_state
  clientInfo :: "client_info option"
  sent :: "server_message list"
  close_call :: "(nat \<times> string) option"
  timer_pending :: bool
  send_throws :: bool

datatype service_event =
    LogEvent string string
  | MessageEvent json string
  | ClientConnected string nat
  | ClientDisconnected string

record websocket_service =
  sessionId :: string
  clients :: "nat list"
  service_events :: "service_event list"

definition CLOSE_NORMAL :: nat where "CLOSE_NORMAL = 1000"
definition CLOSE_TIMEOUT :: nat where "CLOSE_TIMEOUT = 1002"
definition CLOSE_ABNORMAL :: nat where "CLOSE_ABNORMAL = 1006"




text \<open>
  \<open>ws.close(code, reason)\<close> of the library: nothing on a socket that is closing or
  closed; an open socket is marked closing, and then the close frame is built, which
  throws for a code that may not be sent (\<open>1004\<close>, \<open>1005\<close>, \<open>1006\<close> and
  everything outside \<open>1000..1014\<close> and \<open>3000..4999\<close>) and for a reason of more than
  \<open>123\<close> bytes; only otherwise is a close frame sent.
\<close>

definition isValidStatusCode :: "nat \<Rightarrow> bool" where
  "isValidStatusCode code =
     ((code \<ge> 1000 \<and> code \<le> 1014 \<and> code \<noteq> 1004 \<and> code \<noteq> 1005 \<and> code \<noteq> 1006) \<or>
      (code \<ge> 3000 \<and> code \<le> 4999))"

definition ws_close :: "nat \<Rightarrow> string \<Rightarrow> websocket \<Rightarrow> (ws_error + unit) \<times> websocket" where
  "ws_close code reason ws =
     (if readyState ws = CLOSED \<or> readyState ws = CLOSING then (Inr (), ws)
      else
        (let ws1 = ws\<lparr>readyState := CLOSING\<rparr>
         in if \<not> isValidStatusCode code then (Inl InvalidCloseCode, ws1)
            else if length reason > 123 then (Inl CloseReasonTooLong, ws1)
            else (Inr (), ws1\<lparr>close_call := Some (code, reason)\<rparr>)))"

text \<open>\<open>#closeConnection\<close>: \<open>ws.close\<close> in a \<open>try\<close>; an error it throws is logged.\<close>

definition closeConnection ::
  "nat \<Rightarrow> string \<Rightarrow> websocket_service \<times> websocket \<Rightarrow> websocket_service \<times> websocket" where
  "closeConnection code reason = (\<lambda>(svc, ws).
     (case ws_close code reason ws of
        (Inr _, ws') \<Rightarrow> (svc, ws')
      | (Inl e, ws') \<Rightarrow>
          (svc\<lparr>service_events := service_events svc @
                  [LogEvent ''error'' (''Error closing client: '' @ error_message e)]\<rparr>,
           ws')))"

definition sendRaw ::
  "server_message \<Rightarrow> websocket_service \<times> websocket \<Rightarrow> websocket_service \<times> websocket" where
  "sendRaw message = (\<lambda>(svc, ws).
     if send_throws ws
     then closeConnection CLOSE_ABNORMAL (error_message SendFailed)
            (svc\<lparr>service_events := service_events svc @
                   [LogEvent ''error''
                      (''Failed to send message to client: '' @ error_message SendFailed)],
                clients := removeAll (ws_id ws) (clients svc)\<rparr>,
             ws)
     else (svc, ws\<lparr>sent := sent ws @ [message]\<rparr>))"

definition send ::
  "server_message \<Rightarrow> websocket_service \<times> websocket \<Rightarrow> websocket_service \<times> websocket" where
  "send message = (\<lambda>(svc, ws).
     if readyState ws = OPEN then sendRaw message (svc, ws) else (svc, ws))"


text \<open>The callback of the identification timer, the only place that closes with
  \<open>CLOSE_CODES.TIMEOUT\<close>; a cleared timer never fires.\<close>

definition identificationTimeout ::
  "string \<Rightarrow> websocket_service \<times> websocket \<Rightarrow> websocket_service \<times> websocket" where
  "identificationTimeout clientId = (\<lambda>(svc, ws).
     if \<not> timer_pending ws then (svc, ws)
     else closeConnection CLOSE_TIMEOUT ''Client identification timeout''
            (svc\<lparr>service_events := service_events svc @
                   [LogEvent ''warn'' (''Client '' @ clientId @ '' failed to identify within timeout'')]\<rparr>,
             ws\<lparr>timer_pending := False\<rparr>))"







section \<open>BaseWorker (base-worker.js)\<close>

text \<open>
  The worker's port delivers either a health check or any other message, whose
  \<open>frame\<close> property the handler passes to \<open>processFrame\<close> (\<open>None\<close> when the message
  has no such property). What the worker posts to its parent is collected in
  \<open>outbox\<close>. The subclass supplies \<open>processFrame\<close>, which may post messages of its own
  and change the subclass's state (\<open>derived\<close>). \<open>elapsed\<close> is the difference of the two
  \<open>performance.now()\<close> readings.
\<close>

datatype worker_error =
    InvalidFrameData
  | InvalidBodyData
  | InvalidJointData
  | InvalidPositionData
  | NoValidJointsForCenterOfMass
  | NoValidJointsForBoundingBox
  | InvalidOrMissingFrameBuffer
  | InvalidBufferSize nat
  | MissingBuffer
  | InvalidColorFrameSize nat nat
  | InvalidDimensions
  | InvalidFocalLength
  | InvalidPrincipalPoints
  | TypeError string

datatype 'f port_message = HealthCheck | FrameMessage "'f option"

datatype ('a, 'm) worker_out =
    HealthCheckOk
  | DataReply 'a real
  | ErrorReply worker_error
  | SideMessage 'm

record ('a, 'm, 's) base_worker =
  isProcessing :: bool
  lastProcessTime :: real
  outbox :: "('a, 'm) worker_out list"
  derived :: 's

definition new_BaseWorker :: "'s \<Rightarrow> ('a, 'm, 's) base_worker" where
  "new_BaseWorker d = \<lparr>isProcessing = False, lastProcessTime = 0, outbox = [], derived = d\<rparr>"

text \<open>
  The listener of \<open>_setupMessageHandler\<close>: a health check is always answered; a frame
  is skipped while another is in flight; otherwise the result of \<open>processFrame\<close> is
  posted as data, or its error as an error reply, and \<open>isProcessing\<close> is reset.
\<close>

definition onMessage ::
  "('f option \<Rightarrow> ('a, 'm, 's) base_worker \<Rightarrow> (worker_error + 'a) \<times> ('a, 'm, 's) base_worker) \<Rightarrow>
   real \<Rightarrow> 'f port_message \<Rightarrow> ('a, 'm, 's) base_worker \<Rightarrow> ('a, 'm, 's) base_worker" where
  "onMessage processFrame elapsed message w =
     (case message of
        HealthCheck \<Rightarrow> w\<lparr>outbox := outbox w @ [HealthCheckOk]\<rparr>
      | FrameMessage frame \<Rightarrow>
          if isProcessing w then w
          else
            (case processFrame frame (w\<lparr>isProcessing := True\<rparr>) of
               (Inr processedData, w1) \<Rightarrow>
                 w1\<lparr>lastProcessTime := elapsed,
                    outbox := outbox w1 @ [DataReply processedData elapsed],
                    isProcessing := False\<rparr>
             | (Inl e, w1) \<Rightarrow>
                 w1\<lparr>outbox := outbox w1 @ [ErrorReply e], isProcessing := False\<rparr>))"

section \<open>DepthWorker (src/services/workers/depth-worker.js)\<close>

text \<open>
  A raw frame is a Node \<open>Buffer\<close>: a list of bytes, or \<open>None\<close> for a value that is not
  a \<open>Buffer\<close>. \<open>new Uint16Array(frame.buffer.buffer)\<close> reads the bytes as 16-bit
  pixels, low byte first. The processed frame is a \<open>Uint16Array\<close> too: a list of
  16-bit words, and a store into it converts the number stored to an unsigned 16-bit
  integer (truncation towards zero, modulo \<open>2^16\<close>). Depths and distances are
  JavaScript numbers, modelled by the reals they stand for; \<open>Math.pow(x, 0.5)\<close> is the
  square root. \<open>0 / 0\<close> is \<open>NaN\<close> in JavaScript and a \<open>NaN\<close> is stored as \<open>0\<close>;
  HOL's \<open>0 / 0 = 0\<close> stores the same \<open>0\<close>.
\<close>

record depth_processing =
  normalize_on :: bool
  gammaCorrection :: bool
  confidenceThreshold :: "real option"
  generatePointCloud :: bool
  colorize :: bool

record depth_calibration =
  minReliableDistance :: real
  maxReliableDistance :: real
  focalLength :: "real option"
  principalPointX :: "real option"
  principalPointY :: "real option"

record depth_worker =
  dw_frameWidth :: nat
  dw_frameHeight :: nat
  dw_processing :: depth_processing
  dw_calibration :: depth_calibration

definition chunkSize :: nat where
  "chunkSize = 1024"

record depth_result =
  processedFrame :: "16 word list"
  minDepth :: real
  maxDepth :: real
  dr_width :: nat
  dr_height :: nat
  pointCloud :: "real list option"

definition depth_validateFrame :: "depth_worker \<Rightarrow> 8 word list option \<Rightarrow> worker_error + unit" where
  "depth_validateFrame w buffer =
     (case buffer of
        None \<Rightarrow> Inl InvalidOrMissingFrameBuffer
      | Some bs \<Rightarrow>
          (let expectedSize = dw_frameWidth w * dw_frameHeight w * 2
           in if length bs \<noteq> expectedSize then Inl (InvalidBufferSize expectedSize)
              else Inr ()))"

fun uint16_view :: "8 word list \<Rightarrow> 16 word list" where
  "uint16_view (lo # hi # rest) = word_of_nat (unat lo + 256 * unat hi) # uint16_view rest"
| "uint16_view _ = []"

definition to_uint16 :: "real \<Rightarrow> 16 word" where
  "to_uint16 v = word_of_int (if v \<ge> 0 then \<lfloor>v\<rfloor> else \<lceil>v\<rceil>)"

definition isValidDepth :: "depth_worker \<Rightarrow> real \<Rightarrow> real \<Rightarrow> real \<Rightarrow> bool" where
  "isValidDepth w depth lo hi =
     (depth \<ge> lo \<and> depth \<le> hi \<and> depth > 0 \<and>
      (case confidenceThreshold (dw_processing w) of
         None \<Rightarrow> True
       | Some c \<Rightarrow> c = 0 \<or> depth \<ge> c * hi))"

definition normalizeDepth :: "depth_worker \<Rightarrow> real \<Rightarrow> real \<Rightarrow> real \<Rightarrow> real" where
  "normalizeDepth w depth lo hi =
     (let normalized = (depth - lo) / (hi - lo)
      in if gammaCorrection (dw_processing w) then sqrt normalized else normalized)"

text \<open>The body of the inner loop: what is stored in \<open>processed[i]\<close> for \<open>frame[i]\<close>.\<close>

definition process_pixel :: "depth_worker \<Rightarrow> real \<Rightarrow> real \<Rightarrow> 16 word \<Rightarrow> 16 word" where
  "process_pixel w lo hi px =
     (let depth = real (unat px)
      in if normalize_on (dw_processing w)
         then (if isValidDepth w depth lo hi then to_uint16 (normalizeDepth w depth lo hi) else 0)
         else (if isValidDepth w depth lo hi then px else 0))"

function chunk_loop ::
  "depth_worker \<Rightarrow> real \<Rightarrow> real \<Rightarrow> 16 word list \<Rightarrow> nat \<Rightarrow> nat \<Rightarrow> 16 word list \<Rightarrow> 16 word list" where
  "chunk_loop w lo hi frame i end processed =
     (if i < end
      then chunk_loop w lo hi frame (i + 1) end
             (processed[i := process_pixel w lo hi (frame ! i)])
      else processed)"
  by pat_completeness auto
termination
  by (relation "measure (\<lambda>(w, lo, hi, frame, i, end, processed). end - i)") auto

function processFrameChunks_loop ::
  "depth_worker \<Rightarrow> real \<Rightarrow> real \<Rightarrow> 16 word list \<Rightarrow> nat \<Rightarrow> 16 word list \<Rightarrow> 16 word list" where
  "processFrameChunks_loop w lo hi frame offset processed =
     (if offset < length frame
      then processFrameChunks_loop w lo hi frame (offset + min chunkSize (length frame))
             (chunk_loop w lo hi frame offset
                (min (offset + min chunkSize (length frame)) (length frame)) processed)
      else processed)"
  by pat_completeness auto
termination
  by (relation "measure (\<lambda>(w, lo, hi, frame, offset, processed). length frame - offset)")
     (auto simp: chunkSize_def)

text \<open>\<open>_processFrameChunks\<close>, run on the fresh (zero-filled) \<open>processed\<close> array.\<close>

definition processFrameChunks :: "depth_worker \<Rightarrow> 16 word list \<Rightarrow> real \<Rightarrow> real \<Rightarrow> 16 word list" where
  "processFrameChunks w frame lo hi =
     processFrameChunks_loop w lo hi frame 0 (replicate (length frame) 0)"

definition validatePointCloudInput :: "depth_worker \<Rightarrow> worker_error + unit" where
  "validatePointCloudInput w =
     (if dw_frameWidth w = 0 \<or> dw_frameHeight w = 0 then Inl InvalidDimensions
      else
        (case focalLength (dw_calibration w) of
           None \<Rightarrow> Inl InvalidFocalLength
         | Some f \<Rightarrow>
             if f \<le> 0 then Inl InvalidFocalLength
             else if principalPointX (dw_calibration w) = None
                     \<or> principalPointY (dw_calibration w) = None
             then Inl InvalidPrincipalPoints
             else Inr ()))"

text \<open>\<open>_generatePointCloud\<close>; the rounding of the \<open>Float32Array\<close> store is left out.\<close>

definition point_of :: "16 word list \<Rightarrow> nat \<Rightarrow> real \<Rightarrow> real \<Rightarrow> real \<Rightarrow> nat \<Rightarrow> nat \<Rightarrow> real list" where
  "point_of depthFrame width f ppx ppy py px =
     (let depth = real (unat (depthFrame ! (py * width + px)))
      in if depth > 0
         then [(real px - ppx) * depth / f, (real py - ppy) * depth / f, depth]
         else [])"

definition generatePointCloud_depth :: "depth_worker \<Rightarrow> 16 word list \<Rightarrow> worker_error + real list" where
  "generatePointCloud_depth w depthFrame =
     (case validatePointCloudInput w of
        Inl e \<Rightarrow> Inl e
      | Inr _ \<Rightarrow>
          (case (focalLength (dw_calibration w), principalPointX (dw_calibration w),
                 principalPointY (dw_calibration w)) of
             (Some f, Some ppx, Some ppy) \<Rightarrow>
               Inr (concat (map (\<lambda>py. concat (map (point_of depthFrame (dw_frameWidth w) f ppx ppy py)
                                                 [0 ..< dw_frameWidth w]))
                                [0 ..< dw_frameHeight w]))
           | _ \<Rightarrow> Inl InvalidPrincipalPoints))"

text \<open>
  \<open>processFrame(frame)\<close> of the depth worker. No class defines \<open>_colorizeDepth\<close>:
  with \<open>colorize\<close> on, the call is a \<open>TypeError\<close>.
\<close>

definition depth_worker_processFrame ::
  "depth_worker \<Rightarrow> 8 word list option \<Rightarrow> worker_error + depth_result" where
  "depth_worker_processFrame w buffer =
     (case depth_validateFrame w buffer of
        Inl e \<Rightarrow> Inl e
      | Inr _ \<Rightarrow>
          (let lo = minReliableDistance (dw_calibration w);
               hi = maxReliableDistance (dw_calibration w);
               sourceFrame = uint16_view (case buffer of Some bs \<Rightarrow> bs | None \<Rightarrow> []);
               processed = processFrameChunks w sourceFrame lo hi;
               result = \<lparr>processedFrame = processed, minDepth = lo, maxDepth = hi,
                         dr_width = dw_frameWidth w, dr_height = dw_frameHeight w,
                         pointCloud = None\<rparr>
           in case (if generatePointCloud (dw_processing w)
                    then (case generatePointCloud_depth w processed of
                            Inl e \<Rightarrow> Inl e
                          | Inr pts \<Rightarrow> Inr (result\<lparr>pointCloud := Some pts\<rparr>))
                    else Inr result) of
                Inl e \<Rightarrow> Inl e
              | Inr result' \<Rightarrow>
                  if colorize (dw_processing w)
                  then Inl (TypeError ''this._colorizeDepth is not a function'')
                  else Inr result'))"

section \<open>ColorWorker (color-worker.js)\<close>

record color_processing =
  format :: string
  forceOpacity :: bool
  compression_enabled :: bool

record color_worker =
  cw_frameWidth :: nat
  cw_frameHeight :: nat
  cw_processing :: color_processing

record color_result =
  cr_processedFrame :: "8 word list"
  cr_width :: nat
  cr_height :: nat
  cr_format :: string
  compressed :: bool

definition color_validateFrame :: "color_worker \<Rightarrow> 8 word list option \<Rightarrow> worker_error + unit" where
  "color_validateFrame w buffer =
     (case buffer of
        None \<Rightarrow> Inl MissingBuffer
      | Some bs \<Rightarrow>
          (let expectedSize = cw_frameWidth w * cw_frameHeight w * 4
           in if length bs \<noteq> expectedSize then Inl (InvalidColorFrameSize (length bs) expectedSize)
              else Inr ()))"

text \<open>\<open>_enforceOpacity\<close>: the two loops; \<open>n\<close> is \<open>buffer.length\<close>, which no store changes.\<close>

function opacity_loop :: "nat \<Rightarrow> nat \<Rightarrow> 8 word list \<Rightarrow> 8 word list" where
  "opacity_loop i end buffer =
     (if i < end then opacity_loop (i + 4) end (buffer[i := 255]) else buffer)"
  by pat_completeness auto
termination
  by (relation "measure (\<lambda>(i, end, buffer). end - i)") auto

function enforceOpacity_loop :: "nat \<Rightarrow> nat \<Rightarrow> 8 word list \<Rightarrow> 8 word list" where
  "enforceOpacity_loop n offset buffer =
     (if offset < n
      then enforceOpacity_loop n (offset + chunkSize * 4)
             (opacity_loop offset (min (offset + chunkSize * 4) n) buffer)
      else buffer)"
  by pat_completeness auto
termination
  by (relation "measure (\<lambda>(n, offset, buffer). n - offset)") (auto simp: chunkSize_def)

definition enforceOpacity :: "8 word list \<Rightarrow> 8 word list" where
  "enforceOpacity buffer = enforceOpacity_loop (length buffer) 3 buffer"

text \<open>\<open>_compressFrame\<close>: "TODO: Implement compression ... For now, return uncompressed
  buffer".\<close>

definition compressFrame :: "color_worker \<Rightarrow> 8 word list \<Rightarrow> 8 word list" where
  "compressFrame w buffer = buffer"

definition color_worker_processFrame ::
  "color_worker \<Rightarrow> 8 word list option \<Rightarrow> worker_error + color_result" where
  "color_worker_processFrame w buffer =
     (case color_validateFrame w buffer of
        Inl e \<Rightarrow> Inl e
      | Inr _ \<Rightarrow>
          (let processedFrame0 = (case buffer of Some bs \<Rightarrow> bs | None \<Rightarrow> []);
               processedFrame1 = (if compression_enabled (cw_processing w)
                                  then compressFrame w processedFrame0 else processedFrame0);
               processedFrame2 = (if forceOpacity (cw_processing w)
                                  then enforceOpacity processedFrame1 else processedFrame1)
           in Inr \<lparr>cr_processedFrame = processedFrame2,
                   cr_width = cw_frameWidth w,
                   cr_height = cw_frameHeight w,
                   cr_format = format (cw_processing w),
                   compressed = compression_enabled (cw_processing w)\<rparr>))"


section \<open>BodyWorker (body-worker.js)\<close>

text \<open>
  Coordinates, radii and confidences are JavaScript numbers, modelled by the reals
  they stand for; the only falsy number among them is \<open>0\<close>. A property that may be
  missing is an \<open>option\<close>. \<open>body.joints\<close> is the list of its entries in the order of
  \<open>Object.entries\<close>, with distinct keys; a \<open>null\<close> joint is \<open>None\<close>.
  \<open>JSON.parse(JSON.stringify(joint))\<close> is a copy of the joint. \<open>performance.now()\<close>
  is the argument \<open>now\<close>.
\<close>

record vec3 =
  coord_x :: real
  coord_y :: real
  coord_z :: real

record joint =
  position :: "vec3 option"
  previousPosition :: "vec3 option"
  trackingState :: int
  confidence :: "real option"

record hand_states =
  leftHandState :: nat
  rightHandState :: nat

record body =
  trackingId :: nat
  tracked :: bool
  joints :: "(string \<times> joint option) list option"
  handStates :: "hand_states option"

record smoothing_config =
  correction :: real
  prediction :: real
  jitterRadius :: real
  maxDeviationRadius :: real

record tracking_config =
  jointFilter :: "joint \<Rightarrow> bool"
  gestureThreshold :: "real option"

record movement_config =
  threshold :: real
  minConfidence :: real

record metrics_config =
  opt_calculateBoundingBox :: bool
  opt_calculateCenterOfMass :: bool
  opt_calculateConfidence :: bool
  opt_trackVelocity :: bool

record body_processing =
  smoothing :: smoothing_config
  tracking :: tracking_config
  movement :: movement_config
  metrics :: metrics_config

record joint_movement =
  moving :: bool
  velocity :: real
  relativePosition :: vec3
  direction :: "vec3 option"
  movement_confidence :: "real option"

record body_metrics =
  centerOfMass :: "vec3 option"
  boundingBox :: "(vec3 \<times> vec3) option"
  bm_height :: "real option"
  bm_width :: "real option"

record processed_body =
  pb_trackingId :: nat
  pb_tracked :: bool
  pb_joints :: "(string \<times> joint) list"
  pb_handStates :: "string \<times> string"
  pb_movements :: "(string \<times> joint_movement) list option"
  pb_metrics :: "body_metrics option"
  pb_confidence :: "real option"

record movement_report =
  mr_joint :: string
  mr_velocity :: real
  mr_direction :: "vec3 option"
  mr_relativePosition :: vec3
  mr_timestamp :: real

record gesture =
  g_type :: string
  g_joint :: string
  g_speed :: real
  g_timestamp :: real

datatype body_side_message = MovementMessage "movement_report list" | GestureMessage "gesture list"

record body_frame =
  bf_buffer :: "8 word list option"
  bf_bodies :: "body option list option"

record body_result =
  br_bodies :: "processed_body list"
  br_timestamp :: real

record body_worker_state =
  bw_processing :: body_processing
  previousPositions :: "(nat \<times> vec3) list"

type_synonym body_worker = "(body_result, body_side_message, body_worker_state) base_worker"

text \<open>
  \<open>_calculateVelocity\<close>: the guard \<open>!current?.x || ...\<close> is true as soon as one of the
  six coordinates is falsy, and a coordinate equal to \<open>0\<close> is.
\<close>

definition calculateVelocity :: "vec3 \<Rightarrow> vec3 \<Rightarrow> worker_error + real" where
  "calculateVelocity current previous =
     (if coord_x current = 0 \<or> coord_y current = 0 \<or> coord_z current = 0 \<or>
         coord_x previous = 0 \<or> coord_y previous = 0 \<or> coord_z previous = 0
      then Inl InvalidPositionData
      else
        (let dx = coord_x current - coord_x previous;
             dy = coord_y current - coord_y previous;
             dz = coord_z current - coord_z previous
         in Inr (sqrt (dx * dx + dy * dy + dz * dz))))"

definition calculateMovementDirection :: "vec3 \<Rightarrow> vec3 \<Rightarrow> worker_error + vec3" where
  "calculateMovementDirection current previous =
     (if coord_x current = 0 \<or> coord_y current = 0 \<or> coord_z current = 0 \<or>
         coord_x previous = 0 \<or> coord_y previous = 0 \<or> coord_z previous = 0
      then Inl InvalidPositionData
      else Inr \<lparr>coord_x = coord_x current - coord_x previous,
                coord_y = coord_y current - coord_y previous,
                coord_z = coord_z current - coord_z previous\<rparr>)"

text \<open>The position \<open>_smoothJoint\<close> computes before it measures the distance.\<close>

definition blend :: "real \<Rightarrow> vec3 \<Rightarrow> vec3 \<Rightarrow> vec3" where
  "blend c p q =
     \<lparr>coord_x = coord_x p * (1 - c) + coord_x q * c,
      coord_y = coord_y p * (1 - c) + coord_y q * c,
      coord_z = coord_z p * (1 - c) + coord_z q * c\<rparr>"

definition smoothJoint :: "joint \<Rightarrow> smoothing_config \<Rightarrow> worker_error + joint" where
  "smoothJoint j sm =
     (case position j of
        None \<Rightarrow> Inl InvalidJointData
      | Some p \<Rightarrow>
          (case previousPosition j of
             None \<Rightarrow> Inr (j\<lparr>previousPosition := Some p\<rparr>)
           | Some q \<Rightarrow>
               (let sp = blend (correction sm) p q
                in case calculateVelocity sp q of
                     Inl e \<Rightarrow> Inl e
                   | Inr distance \<Rightarrow>
                       (let sp' =
                          (if distance > maxDeviationRadius sm
                           then (let scale = maxDeviationRadius sm / distance
                                 in \<lparr>coord_x = coord_x q + (coord_x sp - coord_x q) * scale,
                                     coord_y = coord_y q + (coord_y sp - coord_y q) * scale,
                                     coord_z = coord_z q + (coord_z sp - coord_z q) * scale\<rparr>)
                           else if distance < jitterRadius sm then q
                           else sp)
                        in Inr (j\<lparr>position := Some sp', previousPosition := Some p\<rparr>)))))"

text \<open>\<open>c - (spinePosition?.x || 0)\<close>, coordinate by coordinate.\<close>

definition relative_to :: "vec3 option \<Rightarrow> vec3 \<Rightarrow> vec3" where
  "relative_to spine p =
     (case spine of
        None \<Rightarrow> p
      | Some sp \<Rightarrow> \<lparr>coord_x = coord_x p - coord_x sp,
                    coord_y = coord_y p - coord_y sp,
                    coord_z = coord_z p - coord_z sp\<rparr>)"

definition detectMovement :: "joint \<Rightarrow> real \<Rightarrow> vec3 option \<Rightarrow> worker_error + joint_movement" where
  "detectMovement j thr spinePosition =
     (case position j of
        None \<Rightarrow> Inl InvalidJointData
      | Some p \<Rightarrow>
          (let rel = relative_to spinePosition p
           in case previousPosition j of
                None \<Rightarrow> Inr \<lparr>moving = False, velocity = 0, relativePosition = rel,
                              direction = None, movement_confidence = None\<rparr>
              | Some q \<Rightarrow>
                  (let relativePrevious = relative_to spinePosition q
                   in case calculateVelocity rel relativePrevious of
                        Inl e \<Rightarrow> Inl e
                      | Inr v \<Rightarrow>
                          (case calculateMovementDirection rel relativePrevious of
                             Inl e \<Rightarrow> Inl e
                           | Inr d \<Rightarrow>
                               Inr \<lparr>moving = (v > thr), velocity = v, relativePosition = rel,
                                    direction = Some d, movement_confidence = None\<rparr>))))"

definition interpretHandState :: "nat \<Rightarrow> string" where
  "interpretHandState state =
     (let states = [''unknown'', ''notTracked'', ''open'', ''closed'', ''lasso'']
      in if state < length states then states ! state else ''unknown'')"

definition processHandStates :: "hand_states option \<Rightarrow> string \<times> string" where
  "processHandStates hs =
     (case hs of
        None \<Rightarrow> (''unknown'', ''unknown'')
      | Some h \<Rightarrow>
          if leftHandState h = 0 \<or> rightHandState h = 0 then (''unknown'', ''unknown'')
          else (interpretHandState (leftHandState h), interpretHandState (rightHandState h)))"

text \<open>The joints the metrics count: \<open>joint?.trackingState > 0 && joint?.position\<close>.\<close>

definition valid_positions :: "(string \<times> joint) list \<Rightarrow> vec3 list" where
  "valid_positions js =
     concat (map (\<lambda>(name, j). if trackingState j > 0
                               then (case position j of Some p \<Rightarrow> [p] | None \<Rightarrow> [])
                               else []) js)"

definition calculateCenterOfMass :: "(string \<times> joint) list \<Rightarrow> worker_error + vec3" where
  "calculateCenterOfMass js =
     (let ps = valid_positions js; count = real (length ps)
      in if length ps = 0 then Inl NoValidJointsForCenterOfMass
         else Inr \<lparr>coord_x = sum_list (map coord_x ps) / count,
                   coord_y = sum_list (map coord_y ps) / count,
                   coord_z = sum_list (map coord_z ps) / count\<rparr>)"

definition calculateBoundingBox :: "(string \<times> joint) list \<Rightarrow> worker_error + vec3 \<times> vec3" where
  "calculateBoundingBox js =
     (case valid_positions js of
        [] \<Rightarrow> Inl NoValidJointsForBoundingBox
      | p # ps \<Rightarrow>
          Inr (\<lparr>coord_x = fold min (map coord_x ps) (coord_x p),
                coord_y = fold min (map coord_y ps) (coord_y p),
                coord_z = fold min (map coord_z ps) (coord_z p)\<rparr>,
               \<lparr>coord_x = fold max (map coord_x ps) (coord_x p),
                coord_y = fold max (map coord_y ps) (coord_y p),
                coord_z = fold max (map coord_z ps) (coord_z p)\<rparr>))"

definition calculateBodyMetrics ::
  "(string \<times> joint) list \<Rightarrow> metrics_config \<Rightarrow> worker_error + body_metrics" where
  "calculateBodyMetrics js m =
     (case (if opt_calculateCenterOfMass m
            then (case calculateCenterOfMass js of Inl e \<Rightarrow> Inl e | Inr c \<Rightarrow> Inr (Some c))
            else Inr None) of
        Inl e \<Rightarrow> Inl e
      | Inr com \<Rightarrow>
          if opt_calculateBoundingBox m
          then (case calculateBoundingBox js of
                  Inl e \<Rightarrow> Inl e
                | Inr (lo, hi) \<Rightarrow>
                    Inr \<lparr>centerOfMass = com, boundingBox = Some (lo, hi),
                         bm_height = Some (coord_y hi - coord_y lo),
                         bm_width = Some (coord_x hi - coord_x lo)\<rparr>)
          else Inr \<lparr>centerOfMass = com, boundingBox = None,
                    bm_height = None, bm_width = None\<rparr>)"

definition calculateBodyConfidence :: "(string \<times> joint) list \<Rightarrow> real" where
  "calculateBodyConfidence js =
     (let cs = concat (map (\<lambda>(name, j). if trackingState j > 0
                                         then (case confidence j of Some c \<Rightarrow> [c] | None \<Rightarrow> [])
                                         else []) js)
      in if length cs > 0 then sum_list cs / real (length cs) else 0)"

text \<open>
  The loop of \<open>_processBody\<close> over \<open>Object.entries(body.joints)\<close>: a joint that is not
  \<open>null\<close> and passes the filter is smoothed, and, with \<open>metrics.trackVelocity\<close>, its movement
  is measured; the first error ends the loop.
\<close>

fun processJoints_loop ::
  "body_processing \<Rightarrow> vec3 option \<Rightarrow> (string \<times> joint option) list \<Rightarrow>
   (string \<times> joint) list \<times> (string \<times> joint_movement) list \<Rightarrow>
   worker_error + (string \<times> joint) list \<times> (string \<times> joint_movement) list" where
  "processJoints_loop cfg spine [] acc = Inr acc"
| "processJoints_loop cfg spine ((jointName, None) # rest) acc =
     processJoints_loop cfg spine rest acc"
| "processJoints_loop cfg spine ((jointName, Some j) # rest) (processedJoints, movements) =
     (if jointFilter (tracking cfg) j
      then (case smoothJoint j (smoothing cfg) of
              Inl e \<Rightarrow> Inl e
            | Inr sj \<Rightarrow>
                if opt_trackVelocity (metrics cfg)
                then (case detectMovement j (threshold (movement cfg)) spine of
                        Inl e \<Rightarrow> Inl e
                      | Inr mv \<Rightarrow>
                          processJoints_loop cfg spine rest
                            (AList.update jointName sj processedJoints,
                             AList.update jointName mv movements))
                else processJoints_loop cfg spine rest
                       (AList.update jointName sj processedJoints, movements))
      else processJoints_loop cfg spine rest (processedJoints, movements))"

text \<open>\<open>joints[k]?.position\<close>.\<close>

definition joint_position :: "(string \<times> joint option) list \<Rightarrow> string \<Rightarrow> vec3 option" where
  "joint_position js k = (case map_of js k of Some (Some j) \<Rightarrow> position j | _ \<Rightarrow> None)"

definition processBody :: "body \<Rightarrow> body_processing \<Rightarrow> worker_error + processed_body" where
  "processBody b cfg =
     (case joints b of
        None \<Rightarrow> Inl InvalidBodyData
      | Some js \<Rightarrow>
          (let spinePosition = joint_position js ''1''
           in case processJoints_loop cfg spinePosition js ([], []) of
                Inl e \<Rightarrow> Inl e
              | Inr (processedJoints, movements) \<Rightarrow>
                  (case (if opt_calculateBoundingBox (metrics cfg) \<or> opt_calculateCenterOfMass (metrics cfg)
                         then (case calculateBodyMetrics processedJoints (metrics cfg) of
                                 Inl e \<Rightarrow> Inl e
                               | Inr m \<Rightarrow> Inr (Some m))
                         else Inr None) of
                     Inl e \<Rightarrow> Inl e
                   | Inr bodyMetrics \<Rightarrow>
                       Inr \<lparr>pb_trackingId = trackingId b,
                            pb_tracked = True,
                            pb_joints = processedJoints,
                            pb_handStates = processHandStates (handStates b),
                            pb_movements = (if opt_trackVelocity (metrics cfg)
                                            then Some movements else None),
                            pb_metrics = bodyMetrics,
                            pb_confidence = (if opt_calculateConfidence (metrics cfg)
                                             then Some (calculateBodyConfidence processedJoints)
                                             else None)\<rparr>)))"

text \<open>
  \<open>_detectMovements\<close>: the records \<open>_detectMovement\<close> builds have no \<open>confidence\<close>,
  and \<open>undefined >= minConfidence\<close> is false.
\<close>

definition detectMovements :: "real \<Rightarrow> processed_body \<Rightarrow> movement_config \<Rightarrow> movement_report list" where
  "detectMovements now b mc =
     (case pb_movements b of
        None \<Rightarrow> []
      | Some ms \<Rightarrow>
          concat (map (\<lambda>(jointName, m).
                    if velocity m > threshold mc \<and>
                       (case movement_confidence m of None \<Rightarrow> False | Some c \<Rightarrow> c \<ge> minConfidence mc)
                    then [\<lparr>mr_joint = jointName, mr_velocity = velocity m,
                           mr_direction = direction m,
                           mr_relativePosition = relativePosition m, mr_timestamp = now\<rparr>]
                    else []) ms))"

text \<open>\<open>_detectGestures\<close>, with the map \<open>previousPositions\<close> it reads and writes.\<close>

definition detectGestures ::
  "real \<Rightarrow> processed_body \<Rightarrow> body_processing \<Rightarrow> (nat \<times> vec3) list \<Rightarrow>
   gesture list \<times> (nat \<times> vec3) list" where
  "detectGestures now b cfg prev =
     (case (case map_of (pb_joints b) ''1'' of Some j \<Rightarrow> position j | None \<Rightarrow> None) of
        None \<Rightarrow> ([], prev)
      | Some spinePosition \<Rightarrow>
          (case (case map_of (pb_joints b) ''11'' of Some j \<Rightarrow> position j | None \<Rightarrow> None) of
             None \<Rightarrow> ([], prev)
           | Some hand \<Rightarrow>
               (let relativePos = relative_to (Some spinePosition) hand;
                    gestures =
                      (if coord_y relativePos > 0
                       then (case map_of prev (pb_trackingId b) of
                               None \<Rightarrow> []
                             | Some prevPos \<Rightarrow>
                                 (let relativeSpeed = coord_x relativePos - coord_x prevPos
                                  in case gestureThreshold (tracking cfg) of
                                       None \<Rightarrow> []
                                     | Some g \<Rightarrow>
                                         if \<bar>relativeSpeed\<bar> > g
                                         then [\<lparr>g_type = (if relativeSpeed < 0 then ''swipeLeft''
                                                          else ''swipeRight''),
                                                g_joint = ''rightHand'',
                                                g_speed = \<bar>relativeSpeed\<bar>,
                                                g_timestamp = now\<rparr>]
                                         else []))
                       else [])
                in (gestures, AList.update (pb_trackingId b) relativePos prev))))"

text \<open>
  The loop of \<open>processFrame\<close> over the bodies. The file posts movements and gestures
  through \<open>parentPort\<close>, the port of base-worker.js: they go to the same outbox.
\<close>

fun processBodies_loop ::
  "real \<Rightarrow> body option list \<Rightarrow> processed_body list \<Rightarrow> body_worker \<Rightarrow>
   (worker_error + processed_body list) \<times> body_worker" where
  "processBodies_loop now [] acc w = (Inr acc, w)"
| "processBodies_loop now (None # rest) acc w = processBodies_loop now rest acc w"
| "processBodies_loop now (Some b # rest) acc w =
     (if tracked b
      then
        (let cfg = bw_processing (derived w)
         in case processBody b cfg of
              Inl e \<Rightarrow> (Inl e, w)
            | Inr pb \<Rightarrow>
                (let movements = (if opt_trackVelocity (metrics cfg)
                                  then detectMovements now pb (movement cfg) else []);
                     w1 = (if length movements > 0
                           then w\<lparr>outbox := outbox w @ [SideMessage (MovementMessage movements)]\<rparr>
                           else w);
                     (gestures, prev) = detectGestures now pb cfg (previousPositions (derived w1));
                     w2 = w1\<lparr>derived := (derived w1)\<lparr>previousPositions := prev\<rparr>\<rparr>;
                     w3 = (if length gestures > 0
                           then w2\<lparr>outbox := outbox w2 @ [SideMessage (GestureMessage gestures)]\<rparr>
                           else w2)
                 in processBodies_loop now rest (acc @ [pb]) w3))
      else processBodies_loop now rest acc w)"

text \<open>\<open>processFrame(frame)\<close> of the body worker; destructuring a missing frame is a
  \<open>TypeError\<close>.\<close>

definition body_worker_processFrame ::
  "real \<Rightarrow> body_frame option \<Rightarrow> body_worker \<Rightarrow> (worker_error + body_result) \<times> body_worker" where
  "body_worker_processFrame now frame w =
     (case frame of
        None \<Rightarrow> (Inl (TypeError ''Cannot destructure property of undefined''), w)
      | Some f \<Rightarrow>
          (case (bf_buffer f, bf_bodies f) of
             (Some _, Some bodies) \<Rightarrow>
               (case processBodies_loop now bodies [] w of
                  (Inl e, w') \<Rightarrow> (Inl e, w')
                | (Inr processedBodies, w') \<Rightarrow>
                    (Inr \<lparr>br_bodies = processedBodies, br_timestamp = now\<rparr>, w'))
           | _ \<Rightarrow> (Inl InvalidFrameData, w)))"

text \<open>The body worker's message listener.\<close>

definition body_worker_onMessage ::
  "real \<Rightarrow> real \<Rightarrow> body_frame port_message \<Rightarrow> body_worker \<Rightarrow> body_worker" where
  "body_worker_onMessage now elapsed message w =
     onMessage (body_worker_processFrame now) elapsed message w"

section \<open>Scenarios\<close>

text \<open>
  Concrete configurations and runs the theorems below refer to: the default
  configuration of service-config.js, the one the repository's tests build, and the
  states a few calls lead to.
\<close>

definition default_options :: pool_options where
  "default_options =
     \<lparr>opt_maxPoolSize = None, opt_initialSize = None, opt_expandSize = None,
      opt_clearOnRelease = None, opt_trackStats = None\<rparr>"

definition test_options :: pool_options where
  "test_options =
     \<lparr>opt_maxPoolSize = Some 10, opt_initialSize = Some 3, opt_expandSize = Some 2,
      opt_clearOnRelease = Some True, opt_trackStats = Some True\<rparr>"

definition fresh_pool :: buffer_pool where
  "fresh_pool = projr (new_BufferPool 0 default_options)"

definition pool_acquired :: buffer_pool where
  "pool_acquired = snd (acquire 1 ''depth'' fresh_pool)"

definition pool_released :: buffer_pool where
  "pool_released = snd (release 2 ''depth'' (Some 4) pool_acquired)"

definition no_throw :: hooks where
  "no_throw =
     \<lparr>initializeReader_throws = None, newWorker_throws = None,
      setupEventListeners_throws = None, cleanupResources_throws = None,
      terminate_throws = None\<rparr>"

text \<open>A depth sensor for frames of one pixel (two bytes), \<open>maxQueueSize = 3\<close>, on the
  default pool, and ten frames that differ in their first byte.\<close>

definition fresh_depth_sensor :: depth_sensor where
  "fresh_depth_sensor = new_DepthSensor 0 1 1 3 None None fresh_pool"

definition started_depth_sensor :: depth_sensor where
  "started_depth_sensor = snd (start no_throw 0 fresh_depth_sensor)"

definition frames10 :: "8 word list list" where
  "frames10 = [[1, 0], [2, 0], [3, 0], [4, 0], [5, 0], [6, 0], [7, 0], [8, 0], [9, 0], [10, 0]]"

definition after_ten_frames :: depth_sensor where
  "after_ten_frames = snd (depth_frames 5 frames10 started_depth_sensor)"

text \<open>A sensor that is started, loses its worker once, is stopped and started again.\<close>

definition fresh_sensor :: base_sensor where
  "fresh_sensor = new_BaseSensor 0 ''depth'' (Some 3) None"

definition running_sensor :: base_sensor where
  "running_sensor = snd (start no_throw 0 fresh_sensor)"

definition crashed_sensor :: base_sensor where
  "crashed_sensor = snd (worker_error_event no_throw (HookError ''worker crashed'') running_sensor)"

definition stopped_sensor :: base_sensor where
  "stopped_sensor = snd (stop no_throw crashed_sensor)"

definition restarted_sensor :: base_sensor where
  "restarted_sensor = snd (start no_throw 10 stopped_sensor)"

text \<open>
  The reader of the repository's tests: depth, color and body required, a window of
  \<open>33\<close> ms, slots dropped after \<open>66\<close> ms. Depth arrives at \<open>0\<close>; then either color
  at \<open>10\<close> and body at \<open>20\<close>, or color alone at \<open>67\<close>.
\<close>

definition sync_options :: frame_sync_options where
  "sync_options =
     \<lparr>opt_syncWindow = Some 33, opt_maxDelay = Some 100, opt_dropAfter = Some 66,
      opt_bufferSize = Some 5\<rparr>"

definition three_sensors :: "(string \<times> bool) list" where
  "three_sensors = [(''depth'', True), (''color'', True), (''body'', True)]"

definition fresh_reader :: multi_source_reader where
  "fresh_reader = projr (new_MultiSourceReader sync_options three_sensors)"

definition started_reader :: multi_source_reader where
  "started_reader = snd (msr_start True fresh_reader)"

definition reader_depth :: multi_source_reader where
  "reader_depth = handleMultiSourceFrame (Some [(''depth'', 1)]) 0 started_reader"

definition reader_color :: multi_source_reader where
  "reader_color = handleMultiSourceFrame (Some [(''color'', 2)]) 10 reader_depth"

definition reader_full :: multi_source_reader where
  "reader_full = processFrameData [(''body'', 3)] 20 reader_color"

definition reader_stale :: multi_source_reader where
  "reader_stale = handleMultiSourceFrame (Some [(''color'', 2)]) 67 reader_depth"






text \<open>
  The depth worker of the spec's scenario: three pixels \<open>[100, 5000, 2000]\<close> (as
  bytes, low byte first), \<open>min = 500\<close>, \<open>max = 4500\<close>, normalization and gamma on,
  no confidence threshold, no point cloud, no colorization.
\<close>

definition filter_depth_worker :: depth_worker where
  "filter_depth_worker =
     \<lparr>dw_frameWidth = 3, dw_frameHeight = 1,
      dw_processing = \<lparr>normalize_on = True, gammaCorrection = True,
                        confidenceThreshold = None, generatePointCloud = False,
                        colorize = False\<rparr>,
      dw_calibration = \<lparr>minReliableDistance = 500, maxReliableDistance = 4500,
                         focalLength = None, principalPointX = None,
                         principalPointY = None\<rparr>\<rparr>"

definition filter_pixels :: "8 word list" where
  "filter_pixels = [100, 0, 136, 19, 208, 7]"

text \<open>A color worker for frames of two pixels, with the processing options of
  service-config.js (opacity forced, compression enabled).\<close>

definition small_color_worker :: color_worker where
  "small_color_worker =
     \<lparr>cw_frameWidth = 2, cw_frameHeight = 1,
      cw_processing = \<lparr>format = ''rgba'', forceOpacity = True, compression_enabled = True\<rparr>\<rparr>"

definition two_pixels :: "8 word list" where
  "two_pixels = [10, 20, 30, 40, 50, 60, 70, 80]"

text \<open>
  A body worker with the processing options of service-config.js, and a frame with
  one tracked body whose only joint is the spine, centred in front of the camera
  (\<open>x = 0\<close>) and seen at the same place in the frame before.
\<close>

definition default_body_processing :: body_processing where
  "default_body_processing =
     \<lparr>smoothing = \<lparr>correction = 0.5, prediction = 0.5, jitterRadius = 0.05,
                    maxDeviationRadius = 0.04\<rparr>,
      tracking = \<lparr>jointFilter = (\<lambda>j. trackingState j > 0), gestureThreshold = None\<rparr>,
      movement = \<lparr>threshold = 0.01, minConfidence = 0.5\<rparr>,
      metrics = \<lparr>opt_calculateBoundingBox = True, opt_calculateCenterOfMass = True,
                  opt_calculateConfidence = True, opt_trackVelocity = True\<rparr>\<rparr>"

definition fresh_body_worker :: body_worker where
  "fresh_body_worker =
     new_BaseWorker \<lparr>bw_processing = default_body_processing, previousPositions = []\<rparr>"

definition centred_spine :: joint where
  "centred_spine =
     \<lparr>position = Some \<lparr>coord_x = 0, coord_y = 0.5, coord_z = 2\<rparr>,
      previousPosition = Some \<lparr>coord_x = 0, coord_y = 0.5, coord_z = 2\<rparr>,
      trackingState = 2, confidence = Some 1\<rparr>"

definition centred_body :: body where
  "centred_body =
     \<lparr>trackingId = 1, tracked = True, joints = Some [(''1'', Some centred_spine)],
      handStates = None\<rparr>"

definition centred_frame :: body_frame where
  "centred_frame = \<lparr>bf_buffer = Some [], bf_bodies = Some [Some centred_body]\<rparr>"

declare shrink_pool.simps [simp del]
declare chunk_loop.simps [simp del]
declare processFrameChunks_loop.simps [simp del]
declare opacity_loop.simps [simp del]
declare enforceOpacity_loop.simps [simp del]

section \<open>Evaluation of the pool on numerals\<close>

lemma push_new_times_numeral:
  "push_new_times (numeral k) t s = push_new_times (pred_numeral k) t (push_new t s)"
  by (simp add: numeral_eq_Suc)

lemmas pool_eval =
  new_BufferPool_def or_default_def initializePools_def BUFFER_CONFIGS_def
  buffer_config.extend_def push_new_def create_def initial_stats_def
  push_new_times_numeral Let_def acquire_def release_def getBufferFromPool_def
  expandPoolAndGetBuffer_def set_add_def

lemma fresh_pool_eq: "new_BufferPool 0 default_options = Inr fresh_pool"
  by (simp add: fresh_pool_def new_BufferPool_def default_options_def or_default_def)

lemma pool_acquired_fst: "fst (acquire 1 ''depth'' fresh_pool) = Inr (Some 4)"
  by (simp add: fresh_pool_def default_options_def pool_eval)

lemma pool_released_fst: "fst (release 2 ''depth'' (Some 4) pool_acquired) = Inr ()"
  by (simp add: pool_acquired_def fresh_pool_def default_options_def pool_eval)

lemma pool_released_depth:
  "map_of (pools pool_released) ''depth'' =
     Some \<lparr>elements = 217088, size_bytes = 434176,
           description = ''Depth sensor frame buffer (512x424 16-bit)'',
           buffers = [0, 1, 2, 3, 4], inUse = [], lastAccessed = 1\<rparr>"
  by (simp add: pool_released_def pool_acquired_def fresh_pool_def default_options_def pool_eval)

section \<open>BufferPool: releasing a buffer that is not outstanding\<close>

text \<open>
  C8. For every pool state, every kind \<open>k\<close> the pool has, and every buffer \<open>b\<close> that is
  not in the in-use set of \<open>k\<close> (a \<open>null\<close> buffer included), \<open>release(k, b)\<close> raises
  the invalid-or-untracked-buffer error, and the pool after the call is the pool before
  it: free lists, in-use sets, statistics, emitted events and buffer contents.
\<close>

theorem release_untracked_leaves_pool_unchanged:
  assumes "map_of (pools s) k = Some p"
    and "\<And>i. b = Some i \<Longrightarrow> i \<notin> set (inUse p)"
  shows "release now k b s = (Inl InvalidOrUntrackedBuffer, s)"
  using assms by (cases b) (simp_all add: release_def)

text \<open>
  The witness is a double release: a buffer acquired from a fresh pool and released
  once is no longer outstanding, and the second release fails without a trace.
\<close>

theorem release_untracked_leaves_pool_unchanged_witness:
  "new_BufferPool 0 default_options = Inr fresh_pool \<and>
   fst (acquire 1 ''depth'' fresh_pool) = Inr (Some 4) \<and>
   fst (release 2 ''depth'' (Some 4) pool_acquired) = Inr () \<and>
   release 3 ''depth'' (Some 4) pool_released = (Inl InvalidOrUntrackedBuffer, pool_released)"
  using release_untracked_leaves_pool_unchanged [OF pool_released_depth, of "Some 4" 3]
    fresh_pool_eq pool_acquired_fst pool_released_fst
  by simp

section \<open>BufferPool: the cap on the total number of buffers\<close>

text \<open>
  C3. The claim is that the buffers of all kinds together never exceed
  \<open>max_pool_size\<close>, and that \<open>resize(new_max)\<close> discards free buffers until the total
  is at most \<open>new_max\<close>. The code is run here on the configuration of
  tests/buffer-pool.test.js (\<open>maxPoolSize = 10\<close>, \<open>initialSize = 3\<close>): the constructor
  allocates \<open>3\<close> buffers for each of the four kinds, \<open>12\<close> in all, above the cap of
  \<open>10\<close>; \<open>resize(5)\<close> succeeds, and since no single kind holds more than \<open>5\<close> buffers
  it discards nothing: the total and the \<open>poolSize\<close> counter stay at \<open>12\<close>.
\<close>

theorem resize_leaves_total_above_cap:
  "case new_BufferPool 0 test_options of
     Inl e \<Rightarrow> False
   | Inr s \<Rightarrow>
       maxPoolSize s = 10 \<and> total_buffers s = 12 \<and> poolSize (stats s) = 12 \<and>
       (case resize 1 5 s of
          (r, s') \<Rightarrow> r = Inr () \<and> maxPoolSize s' = 5 \<and> total_buffers s' = 12 \<and>
                     poolSize (stats s') = 12)"
  by (simp add: test_options_def pool_eval resize_def shrinkPools_def shrink_pool.simps
      total_buffers_def)

section \<open>DepthSensor: ten frames against a queue of three\<close>

lemmas sensor_eval =
  new_DepthSensor_def new_BaseSensor_def base_sensor.extend_def nat_or_default_def
  createInitialStats_def start_def stop_def initializeWorker_def start_failed_def
  handleWorkerError_def worker_error_event_def no_throw_def

lemmas depth_sensor_eval =
  depth_processFrame_def processFrame_catch_def acquireBuffer_def releaseBuffer_def
  copy_into_def postMessage_transfer_def

text \<open>
  C1. The claim is that, with \<open>max_queue_size = 3\<close> and ten frames arriving before
  any worker result, seven frames are dropped, \<open>missed_frames\<close> is \<open>7\<close> and the three
  most recent frames are processed. The code is run here on that input, on the default
  pool. The 1st, 2nd and 3rd frames are queued and posted, each with its buffer in the
  transfer list, so the sensor's copies are detached. The 4th, 6th and 8th arrivals
  find the queue full: each shifts the oldest buffer out and releases it, the pool's
  \<open>fill(0)\<close> throws on the detached buffer, the \<open>catch\<close> block's release of
  \<open>currentBuffer\<close> throws the same way, and the method is left before
  \<open>missedFrames++\<close>. The 5th and 7th frames are queued and posted in the places
  freed; the 9th and 10th find the pool exhausted and are dropped uncounted. At the
  end \<open>missed_frames\<close> is \<open>0\<close>, the frames posted are the 1st, 2nd, 3rd, 5th and
  7th, all five depth buffers are outstanding, and none of the three most recent
  frames reached the worker.
\<close>

theorem ten_frames_count_no_missed_frame:
  "fst (start no_throw 0 fresh_depth_sensor) = Inr () \<and>
   fst (depth_frames 5 frames10 started_depth_sensor) =
     [Inr (), Inr (), Inr (), Inl (PoolError FillOnDetachedBuffer), Inr (),
      Inl (PoolError FillOnDetachedBuffer), Inr (), Inl (PoolError FillOnDetachedBuffer),
      Inr (), Inr ()] \<and>
   missedFrames (performanceStats after_ten_frames) = 0 \<and>
   frameQueue after_ten_frames = [1, 0] \<and>
   posted after_ten_frames =
     [ProcessFrameMsg 4 (Bytes [1, 0]), ProcessFrameMsg 3 (Bytes [2, 0]),
      ProcessFrameMsg 2 (Bytes [3, 0]), ProcessFrameMsg 1 (Bytes [5, 0]),
      ProcessFrameMsg 0 (Bytes [7, 0])] \<and>
   map_of (pools (bufferPool after_ten_frames)) ''depth'' =
     Some \<lparr>elements = 217088, size_bytes = 434176,
           description = ''Depth sensor frame buffer (512x424 16-bit)'',
           buffers = [], inUse = [4, 3, 2, 1, 0], lastAccessed = 5\<rparr> \<and>
   pool_events (bufferPool after_ten_frames) =
     [PoolExhausted ''depth'' 20 5 5, PoolExhausted ''depth'' 20 5 5]"
  by (simp add: after_ten_frames_def started_depth_sensor_def fresh_depth_sensor_def
      fresh_pool_def default_options_def frames10_def pool_eval sensor_eval depth_sensor_eval)

section \<open>BaseSensor: the worker restart counter across a restart of the sensor\<close>

lemma restart_run:
  "fst (start no_throw 0 fresh_sensor) = Inr () \<and>
   fst (worker_error_event no_throw (HookError ''worker crashed'') running_sensor) = Inr () \<and>
   fst (stop no_throw crashed_sensor) = Inr () \<and>
   fst (start no_throw 10 stopped_sensor) = Inr () \<and>
   isRunning restarted_sensor \<and>
   workerRestartAttempts restarted_sensor = 1"
  by (simp add: restarted_sensor_def stopped_sensor_def crashed_sensor_def running_sensor_def
      fresh_sensor_def sensor_eval)

text \<open>
  C7, as stated: a \<open>start()\<close> that completes leaves the restart counter at \<open>0\<close>. A
  sensor that restarted its worker once and is then stopped and started again runs with
  the counter at \<open>1\<close>.
\<close>

theorem restart_counter_survives_start:
  "fst (start no_throw 10 stopped_sensor) = Inr () \<and>
   isRunning restarted_sensor \<and>
   workerRestartAttempts restarted_sensor \<noteq> 0"
  using restart_run by simp

text \<open>
  C7, amended. \<open>start()\<close> never touches the worker restart counter: whether it
  completes, fails, or returns at once because the sensor is running, the counter after
  the call is the counter before it; so is it after \<open>stop()\<close>. The counter is \<open>0\<close>
  when the sensor is constructed.
\<close>

theorem start_keeps_restart_counter:
  "workerRestartAttempts (snd (start h now s)) = workerRestartAttempts s \<and>
   workerRestartAttempts (snd (stop h s)) = workerRestartAttempts s \<and>
   workerRestartAttempts (new_BaseSensor t type maxRestarts timeout) = 0"
  by (simp add: start_def stop_def start_failed_def initializeWorker_def new_BaseSensor_def
      Let_def split: option.splits)


section \<open>MultiSourceReader: when a bundle is emitted\<close>

lemmas reader_eval =
  new_MultiSourceReader_def frameTypeMap_def set_add_def or_default_def initial_msr_stats_def
  msr_start_def resetState_def handleMultiSourceFrame_def processFrameData_def bufferFrame_def
  handleBufferOverflow_def checkSynchronization_def isFrameBufferComplete_def
  emitSynchronizedFrame_def updateSyncStats_def dropStaleFrames_def emitted_def Let_def
  sync_options_def three_sensors_def

lemma configureFrameTypes_loop_required:
  assumes "required = [] \<longrightarrow> types = 0"
    and "configureFrameTypes_loop sensors (types, required) = (types', required')"
  shows "required' = [] \<longrightarrow> types' = 0"
  using assms
proof (induction sensors arbitrary: types required)
  case Nil
  then show ?case by simp
next
  case (Cons entry rest)
  obtain key enabled where entry: "entry = (key, enabled)" by (cases entry)
  show ?case
  proof (cases "map_of frameTypeMap key")
    case None
    with Cons entry show ?thesis by simp
  next
    case (Some flag)
    show ?thesis
    proof (cases "enabled \<and> flag \<noteq> 0")
      case True
      have "set_add key required \<noteq> []" by (auto simp: set_add_def)
      then have "set_add key required = [] \<longrightarrow> or types flag = 0" by simp
      from Cons.IH [OF this] Cons.prems(2) entry Some True show ?thesis by simp
    next
      case False
      from Cons.IH [OF Cons.prems(1)] Cons.prems(2) entry Some False show ?thesis by auto
    qed
  qed
qed

text \<open>A reader the constructor accepts has at least one required kind.\<close>

lemma constructed_reader_requires_a_kind:
  assumes "new_MultiSourceReader frameSync sensors = Inr r"
  shows "requiredFrameTypes r \<noteq> []"
proof -
  obtain types required where c:
    "configureFrameTypes_loop sensors (0, []) = (types, required)"
    by (cases "configureFrameTypes_loop sensors (0, [])")
  with assms have t: "types \<noteq> 0" and r: "requiredFrameTypes r = required"
    by (auto simp: new_MultiSourceReader_def split: if_splits)
  from configureFrameTypes_loop_required [OF _ c] have "required = [] \<longrightarrow> types = 0" by simp
  with t r show ?thesis by simp
qed

lemma dropStale_events:
  "\<exists>xs. msr_events (dropStaleFrames_loop t es s) = msr_events s @ xs \<and>
        (\<forall>e \<in> set xs. \<exists>k a b. e = FrameDropped k a b)"
proof (induction es arbitrary: s)
  case Nil
  then show ?case by simp
next
  case (Cons e es)
  obtain k d where e: "e = (k, d)" by (cases e)
  let ?s' = "if t - slot_timestamp d > dropFramesAfter s
        then s\<lparr>frameBuffer := AList.delete k (frameBuffer s),
               msr_stats := (msr_stats s)\<lparr>droppedFrames := droppedFrames (msr_stats s) + 1\<rparr>,
               msr_events := msr_events s @
                 [FrameDropped k (slot_timestamp d) (t - slot_timestamp d)]\<rparr>
        else s"
  from Cons.IH [of ?s'] obtain xs where
    xs: "msr_events (dropStaleFrames_loop t es ?s') = msr_events ?s' @ xs"
        "\<forall>e \<in> set xs. \<exists>k a b. e = FrameDropped k a b" by blast
  show ?case
  proof (cases "t - slot_timestamp d > dropFramesAfter s")
    case True
    with xs e show ?thesis
      by (intro exI [of _ "FrameDropped k (slot_timestamp d) (t - slot_timestamp d) # xs"]) auto
  next
    case False
    with xs e show ?thesis by (intro exI [of _ xs]) auto
  qed
qed

lemma dropStale_no_sync:
  "SynchronizedFrame ts fr \<notin> set (emitted s (dropStaleFrames t s))"
proof -
  obtain xs where xs: "msr_events (dropStaleFrames t s) = msr_events s @ xs"
    "\<forall>e \<in> set xs. \<exists>k a b. e = FrameDropped k a b"
    using dropStale_events [of t "frameBuffer s" s] by (auto simp: dropStaleFrames_def)
  then show ?thesis by (auto simp: emitted_def)
qed

lemma fold_max_delays:
  fixes ts :: "int list"
  assumes "ts \<noteq> []"
  shows "fold max (tl (map (\<lambda>x. t - x) ts)) (hd (map (\<lambda>x. t - x) ts)) = t - Min (set ts)"
proof -
  from assms obtain x xs where ts: "ts = x # xs" by (cases ts) auto
  have "fold max (map (\<lambda>x. t - x) xs) (t - x) = Max (set (map (\<lambda>x. t - x) (x # xs)))"
    by (simp only: Max.set_eq_fold [symmetric] list.map)
  also have "\<dots> = t - Min (set (x # xs))"
  proof (rule Max_eqI)
    show "finite (set (map (\<lambda>x. t - x) (x # xs)))" by simp
    show "\<And>y. y \<in> set (map (\<lambda>x. t - x) (x # xs)) \<Longrightarrow> y \<le> t - Min (set (x # xs))"
      by (auto simp del: Min_insert intro!: Min_le)
    have "Min (set (x # xs)) \<in> set (x # xs)" by (rule Min_in) auto
    then have "t - Min (set (x # xs)) \<in> (\<lambda>x. t - x) ` set (x # xs)" by (rule imageI)
    then show "t - Min (set (x # xs)) \<in> set (map (\<lambda>x. t - x) (x # xs))"
      by (simp only: set_map)
  qed
  finally show ?thesis by (simp add: ts)
qed

lemma fold_min_delays:
  fixes ts :: "int list"
  assumes "ts \<noteq> []"
  shows "fold min (tl (map (\<lambda>x. t - x) ts)) (hd (map (\<lambda>x. t - x) ts)) = t - Max (set ts)"
proof -
  from assms obtain x xs where ts: "ts = x # xs" by (cases ts) auto
  have "fold min (map (\<lambda>x. t - x) xs) (t - x) = Min (set (map (\<lambda>x. t - x) (x # xs)))"
    by (simp only: Min.set_eq_fold [symmetric] list.map)
  also have "\<dots> = t - Max (set (x # xs))"
  proof (rule Min_eqI)
    show "finite (set (map (\<lambda>x. t - x) (x # xs)))" by simp
    show "\<And>y. y \<in> set (map (\<lambda>x. t - x) (x # xs)) \<Longrightarrow> y \<ge> t - Max (set (x # xs))"
      by (auto simp del: Max_insert intro!: Max_ge)
    have "Max (set (x # xs)) \<in> set (x # xs)" by (rule Max_in) auto
    then have "t - Max (set (x # xs)) \<in> (\<lambda>x. t - x) ` set (x # xs)" by (rule imageI)
    then show "t - Max (set (x # xs)) \<in> set (map (\<lambda>x. t - x) (x # xs))"
      by (simp only: set_map)
  qed
  finally show ?thesis by (simp add: ts)
qed

lemma complete_iff:
  "isFrameBufferComplete s \<longleftrightarrow> set (requiredFrameTypes s) \<subseteq> fst ` set (frameBuffer s)"
  by (auto simp: isFrameBufferComplete_def list_all_iff map_of_eq_None_iff)

text \<open>
  C5. With at least one required kind (the constructor refuses a reader without), a
  run of the synchronization check emits a synchronized frame only when every
  required kind has a slot in the frame buffer and the spread of the buffered
  timestamps, largest minus smallest, is at most \<open>syncWindow\<close>; the bundle then
  carries the call's timestamp and every buffered frame, and the frame buffer is empty
  after the emission.
\<close>

theorem sync_bundle_only_when_complete_and_within_window:
  assumes req: "requiredFrameTypes s \<noteq> []"
    and ev: "SynchronizedFrame ts fr \<in> set (emitted s (checkSynchronization t s))"
  shows "set (requiredFrameTypes s) \<subseteq> fst ` set (frameBuffer s) \<and>
         Max (set (map (slot_timestamp \<circ> snd) (frameBuffer s)))
           - Min (set (map (slot_timestamp \<circ> snd) (frameBuffer s))) \<le> syncWindow s \<and>
         frameBuffer (checkSynchronization t s) = [] \<and>
         ts = t \<and> fr = map (\<lambda>(k, d). (k, slot_frame d)) (frameBuffer s)"
proof -
  let ?s1 = "s\<lparr>msr_stats := (msr_stats s)\<lparr>syncAttempts := syncAttempts (msr_stats s) + 1\<rparr>\<rparr>"
  let ?tss = "map (slot_timestamp \<circ> snd) (frameBuffer s)"
  let ?delays = "map (\<lambda>(type, d). t - slot_timestamp d) (frameBuffer s)"
  have delays: "?delays = map (\<lambda>x. t - x) ?tss" by (simp add: case_prod_unfold comp_def)
  have complete: "isFrameBufferComplete ?s1"
  proof (rule ccontr)
    assume "\<not> isFrameBufferComplete ?s1"
    then have "checkSynchronization t s = ?s1" by (simp add: checkSynchronization_def Let_def)
    with ev show False by (simp add: emitted_def)
  qed
  then have sub: "set (requiredFrameTypes s) \<subseteq> fst ` set (frameBuffer s)"
    by (simp add: complete_iff)
  with req have ne: "frameBuffer s \<noteq> []" by (cases "requiredFrameTypes s") auto
  then have tss_ne: "?tss \<noteq> []" by simp
  from ne obtain d ds where dd: "?delays = d # ds" by (cases "frameBuffer s") auto
  then have d: "d = hd (map (\<lambda>x. t - x) ?tss)" and ds: "ds = tl (map (\<lambda>x. t - x) ?tss)"
    using delays by simp_all
  have mx: "fold max ds d = t - Min (set ?tss)" unfolding d ds by (rule fold_max_delays [OF tss_ne])
  have mn: "fold min ds d = t - Max (set ?tss)" unfolding d ds by (rule fold_min_delays [OF tss_ne])
  have spread: "fold max ds d - fold min ds d = Max (set ?tss) - Min (set ?tss)"
    using mx mn by simp
  have window: "fold max ds d - fold min ds d \<le> syncWindow s"
  proof (rule ccontr)
    assume nw: "\<not> fold max ds d - fold min ds d \<le> syncWindow s"
    with complete dd have "checkSynchronization t s = ?s1 \<or>
        checkSynchronization t s = dropStaleFrames t ?s1"
      by (simp add: checkSynchronization_def Let_def)
    then show False
    proof
      assume "checkSynchronization t s = ?s1"
      with ev show False by (simp add: emitted_def)
    next
      assume "checkSynchronization t s = dropStaleFrames t ?s1"
      with ev have "SynchronizedFrame ts fr \<in> set (emitted ?s1 (dropStaleFrames t ?s1))"
        by (simp add: emitted_def)
      with dropStale_no_sync show False by blast
    qed
  qed
  with complete dd have res: "checkSynchronization t s = emitSynchronizedFrame t ?s1"
    by (simp add: checkSynchronization_def Let_def)
  have "emitted s (emitSynchronizedFrame t ?s1) =
          [SynchronizedFrame t (map (\<lambda>(k, d). (k, slot_frame d)) (frameBuffer s))]"
    by (simp add: emitted_def emitSynchronizedFrame_def updateSyncStats_def Let_def)
  with ev res have "ts = t" "fr = map (\<lambda>(k, d). (k, slot_frame d)) (frameBuffer s)" by simp_all
  moreover have "frameBuffer (checkSynchronization t s) = []"
    by (simp add: res emitSynchronizedFrame_def updateSyncStats_def Let_def)
  ultimately show ?thesis using sub window spread by simp
qed

lemma reader_full_required: "requiredFrameTypes reader_full \<noteq> []"
  by (simp add: reader_full_def reader_color_def reader_depth_def started_reader_def
      fresh_reader_def reader_eval)

lemma reader_full_emits:
  "SynchronizedFrame 20 [(''depth'', 1), (''color'', 2), (''body'', 3)]
     \<in> set (emitted reader_full (checkSynchronization 20 reader_full))"
  by (simp add: reader_full_def reader_color_def reader_depth_def started_reader_def
      fresh_reader_def reader_eval)

theorem sync_bundle_only_when_complete_and_within_window_witness:
  "requiredFrameTypes reader_full \<noteq> [] \<and>
   SynchronizedFrame 20 [(''depth'', 1), (''color'', 2), (''body'', 3)]
     \<in> set (emitted reader_full (checkSynchronization 20 reader_full)) \<and>
   set (requiredFrameTypes reader_full) \<subseteq> fst ` set (frameBuffer reader_full) \<and>
   Max (set (map (slot_timestamp \<circ> snd) (frameBuffer reader_full)))
     - Min (set (map (slot_timestamp \<circ> snd) (frameBuffer reader_full)))
       \<le> syncWindow reader_full \<and>
   frameBuffer (checkSynchronization 20 reader_full) = []"
  using sync_bundle_only_when_complete_and_within_window
          [OF reader_full_required reader_full_emits]
        reader_full_required reader_full_emits
  by simp

section \<open>MultiSourceReader: stale slots\<close>

text \<open>While a required kind is missing, the check only counts the attempt.\<close>

lemma incomplete_buffer_is_left_alone:
  assumes "\<not> isFrameBufferComplete s"
  shows "checkSynchronization t s =
           s\<lparr>msr_stats := (msr_stats s)\<lparr>syncAttempts := syncAttempts (msr_stats s) + 1\<rparr>\<rparr>"
  using assms by (simp add: checkSynchronization_def isFrameBufferComplete_def Let_def)

text \<open>
  C6. The claim is that every emission that produces no bundle removes each slot older
  than \<open>drop_after\<close>, counts it and reports it. The code is run here on the scenario
  of the repository's test "should drop stale frames": depth, color and body are
  required, \<open>dropAfter = 66\<close>; a depth frame arrives at \<open>0\<close> and a color frame at
  \<open>67\<close>. The second emission produces no bundle, the depth slot is \<open>67\<close> ms old, and
  it is still in the buffer: nothing is counted as dropped and no event is emitted,
  because the check returns as soon as it finds a required kind (body) missing.
\<close>

theorem stale_slot_kept_while_incomplete:
  "new_MultiSourceReader sync_options three_sensors = Inr fresh_reader \<and>
   fst (msr_start True fresh_reader) = Inr () \<and>
   requiredFrameTypes reader_stale = [''depth'', ''color'', ''body''] \<and>
   dropFramesAfter reader_stale = 66 \<and>
   frameBuffer reader_stale =
     [(''depth'', \<lparr>slot_frame = 1, slot_timestamp = 0\<rparr>),
      (''color'', \<lparr>slot_frame = 2, slot_timestamp = 67\<rparr>)] \<and>
   droppedFrames (msr_stats reader_stale) = 0 \<and>
   emitted reader_depth reader_stale = []"
  by (simp add: reader_stale_def reader_depth_def started_reader_def fresh_reader_def
      reader_eval)

section \<open>WebSocketService: a message before identification\<close>








section \<open>DepthWorker: what the processed frame holds\<close>

lemma floor_sqrt_below_one: "0 \<le> x \<Longrightarrow> x < 1 \<Longrightarrow> \<lfloor>sqrt x\<rfloor> = 0"
  by (simp add: floor_eq_iff real_less_lsqrt)

lemma sqrt_three_eighths: "0.612 < sqrt (3 / 8 :: real) \<and> sqrt (3 / 8 :: real) < 0.613"
proof
  show "0.612 < sqrt (3 / 8 :: real)"
    by (rule real_less_rsqrt) (simp add: power2_eq_square)
  show "sqrt (3 / 8 :: real) < 0.613"
    by (rule real_less_lsqrt) (simp_all add: power2_eq_square)
qed

text \<open>With normalization on, whatever the pixel, the value stored is \<open>0\<close> or \<open>1\<close>.\<close>

lemma normalized_pixel_is_zero_or_one:
  assumes "normalize_on (dw_processing w)"
  shows "process_pixel w lo hi px = 0 \<or> process_pixel w lo hi px = 1"
proof (cases "isValidDepth w (real (unat px)) lo hi")
  case False
  with assms show ?thesis by (simp add: process_pixel_def)
next
  case True
  let ?d = "real (unat px)"
  let ?n = "(?d - lo) / (hi - lo)"
  from True have range: "lo \<le> ?d" "?d \<le> hi" by (simp_all add: isValidDepth_def)
  then have "lo \<le> hi" by linarith
  with range have n: "0 \<le> ?n" "?n \<le> 1" by (auto simp: divide_le_eq_1)
  then have s: "0 \<le> sqrt ?n" "sqrt ?n \<le> 1" by simp_all
  let ?v = "normalizeDepth w ?d lo hi"
  have v: "0 \<le> ?v" "?v \<le> 1" using n s by (simp_all add: normalizeDepth_def Let_def)
  have "\<lfloor>?v\<rfloor> = 0 \<or> \<lfloor>?v\<rfloor> = 1"
  proof (cases "?v < 1")
    case True
    with v(1) have "\<lfloor>?v\<rfloor> = 0" by (simp add: floor_eq_iff)
    then show ?thesis by simp
  next
    case False
    with v(2) have "?v = 1" by simp
    then show ?thesis by simp
  qed
  then have "to_uint16 ?v = 0 \<or> to_uint16 ?v = 1" using v by (auto simp: to_uint16_def)
  with True assms show ?thesis by (simp add: process_pixel_def Let_def)
qed

text \<open>
  C2. The claim is that the pixels \<open>[100, 5000, 2000]\<close> are processed to
  \<open>[0, 0, \<approx>0.612]\<close>. The code is run here on that input: \<open>_normalizeDepth\<close> does
  compute the square root of \<open>0.375\<close>, between \<open>0.612\<close> and \<open>0.613\<close>, for the pixel
  \<open>2000\<close>, but \<open>processed\<close> is a \<open>Uint16Array\<close>, and the store
  \<open>processed[i] = ...\<close> truncates the number to the integer \<open>0\<close>: the processed
  frame is \<open>[0, 0, 0]\<close>.
\<close>

theorem normalized_depth_is_stored_as_zero:
  "uint16_view filter_pixels = [100, 5000, 2000] \<and>
   normalizeDepth filter_depth_worker 2000 500 4500 = sqrt (3 / 8) \<and>
   0.612 < normalizeDepth filter_depth_worker 2000 500 4500 \<and>
   normalizeDepth filter_depth_worker 2000 500 4500 < 0.613 \<and>
   depth_worker_processFrame filter_depth_worker (Some filter_pixels) =
     Inr \<lparr>processedFrame = [0, 0, 0], minDepth = 500, maxDepth = 4500,
          dr_width = 3, dr_height = 1, pointCloud = None\<rparr>"
proof -
  have n: "normalizeDepth filter_depth_worker 2000 500 4500 = sqrt (3 / 8)"
    by (simp add: normalizeDepth_def filter_depth_worker_def)
  have r: "depth_worker_processFrame filter_depth_worker (Some filter_pixels) =
     Inr \<lparr>processedFrame = [0, 0, 0], minDepth = 500, maxDepth = 4500,
          dr_width = 3, dr_height = 1, pointCloud = None\<rparr>"
    by (simp add: depth_worker_processFrame_def depth_validateFrame_def processFrameChunks_def
        processFrameChunks_loop.simps chunk_loop.simps chunkSize_def process_pixel_def
        filter_depth_worker_def filter_pixels_def isValidDepth_def normalizeDepth_def
        to_uint16_def floor_sqrt_below_one)
  have v: "uint16_view filter_pixels = [100, 5000, 2000]"
    by (simp add: filter_pixels_def)
  show ?thesis using n r v sqrt_three_eighths by simp
qed

section \<open>ColorWorker: compression\<close>

lemma length_opacity_loop: "length (opacity_loop i e buffer) = length buffer"
  by (induction i e buffer rule: opacity_loop.induct) (simp add: opacity_loop.simps)

lemma length_enforceOpacity_loop: "length (enforceOpacity_loop n offset buffer) = length buffer"
  by (induction n offset buffer rule: enforceOpacity_loop.induct)
     (simp add: enforceOpacity_loop.simps length_opacity_loop)

lemma length_enforceOpacity: "length (enforceOpacity buffer) = length buffer"
  by (simp add: enforceOpacity_def length_enforceOpacity_loop)

text \<open>
  C9. With compression enabled in the configuration, \<open>_compressFrame\<close> returns the
  bytes it is given, for every buffer, and \<open>processFrame\<close> on a frame of the right
  size returns \<open>compressed = true\<close> with a payload that is the input itself (with the
  alpha bytes set when opacity is forced), as long as the input: nothing is compressed.
\<close>

theorem compression_is_identity_but_reported:
  assumes "compression_enabled (cw_processing w)"
    and "length bs = cw_frameWidth w * cw_frameHeight w * 4"
  shows "compressFrame w bs = bs \<and>
         color_worker_processFrame w (Some bs) =
           Inr \<lparr>cr_processedFrame = (if forceOpacity (cw_processing w)
                                      then enforceOpacity bs else bs),
                cr_width = cw_frameWidth w, cr_height = cw_frameHeight w,
                cr_format = format (cw_processing w), compressed = True\<rparr> \<and>
         length (if forceOpacity (cw_processing w) then enforceOpacity bs else bs) = length bs"
  using assms
  by (simp add: compressFrame_def color_worker_processFrame_def color_validateFrame_def
      length_enforceOpacity)

lemma two_pixels_opaque: "enforceOpacity two_pixels = [10, 20, 30, 255, 50, 60, 70, 255]"
  by (simp add: enforceOpacity_def two_pixels_def enforceOpacity_loop.simps opacity_loop.simps
      chunkSize_def)

theorem compression_is_identity_but_reported_witness:
  "compression_enabled (cw_processing small_color_worker) \<and>
   length two_pixels = cw_frameWidth small_color_worker * cw_frameHeight small_color_worker * 4 \<and>
   compressFrame small_color_worker two_pixels = two_pixels \<and>
   color_worker_processFrame small_color_worker (Some two_pixels) =
     Inr \<lparr>cr_processedFrame = [10, 20, 30, 255, 50, 60, 70, 255],
          cr_width = 2, cr_height = 1, cr_format = ''rgba'', compressed = True\<rparr>"
proof -
  have a: "compression_enabled (cw_processing small_color_worker)"
    by (simp add: small_color_worker_def)
  have b: "length two_pixels
             = cw_frameWidth small_color_worker * cw_frameHeight small_color_worker * 4"
    by (simp add: small_color_worker_def two_pixels_def)
  have c: "forceOpacity (cw_processing small_color_worker)"
    "cw_frameWidth small_color_worker = 2" "cw_frameHeight small_color_worker = 1"
    "format (cw_processing small_color_worker) = ''rgba''"
    by (simp_all add: small_color_worker_def)
  from compression_is_identity_but_reported [OF a b] a b c two_pixels_opaque
  show ?thesis by simp
qed

section \<open>BodyWorker: a coordinate that is zero\<close>

lemma calculateVelocity_zero:
  assumes "coord_x c = 0 \<or> coord_y c = 0 \<or> coord_z c = 0 \<or>
           coord_x q = 0 \<or> coord_y q = 0 \<or> coord_z q = 0"
  shows "calculateVelocity c q = Inl InvalidPositionData"
  using assms by (simp add: calculateVelocity_def)

lemma smoothJoint_zero:
  assumes "position j = Some p" and "previousPosition j = Some q"
    and "coord_x (blend (correction sm) p q) = 0 \<or> coord_y (blend (correction sm) p q) = 0 \<or>
         coord_z (blend (correction sm) p q) = 0 \<or>
         coord_x q = 0 \<or> coord_y q = 0 \<or> coord_z q = 0"
  shows "smoothJoint j sm = Inl InvalidPositionData"
  using assms by (simp add: smoothJoint_def Let_def calculateVelocity_zero)

lemma processJoints_loop_fails:
  assumes "(name, Some j) \<in> set js" and "jointFilter (tracking cfg) j"
    and "smoothJoint j (smoothing cfg) = Inl e"
  shows "\<exists>e'. processJoints_loop cfg spine js acc = Inl e'"
  using assms(1)
proof (induction js arbitrary: acc)
  case Nil
  then show ?case by simp
next
  case (Cons entry rest)
  obtain jointName oj where entry: "entry = (jointName, oj)" by (cases entry)
  obtain processedJoints movements where acc: "acc = (processedJoints, movements)"
    by (cases acc)
  show ?case
  proof (cases "entry = (name, Some j)")
    case True
    with entry have "oj = Some j" "jointName = name" by simp_all
    with entry acc assms(2,3) show ?thesis by simp
  next
    case False
    with Cons.prems have mem: "(name, Some j) \<in> set rest" by simp
    show ?thesis
    proof (cases oj)
      case None
      with entry Cons.IH [OF mem] show ?thesis by simp
    next
      case (Some j')
      with entry acc Cons.IH [OF mem] show ?thesis
        by (simp split: sum.splits)
    qed
  qed
qed

lemma processBody_fails:
  assumes "joints b = Some js" and "(name, Some j) \<in> set js"
    and "jointFilter (tracking cfg) j" and "smoothJoint j (smoothing cfg) = Inl e"
  shows "\<exists>e'. processBody b cfg = Inl e'"
proof -
  from processJoints_loop_fails [OF assms(2-4)]
  obtain e' where "processJoints_loop cfg (joint_position js ''1'') js ([], []) = Inl e'"
    by blast
  with assms(1) show ?thesis by (simp add: processBody_def)
qed

lemma processBodies_loop_fails:
  assumes "Some b \<in> set bodies" and "tracked b"
    and "processBody b (bw_processing (derived w)) = Inl e"
  shows "\<exists>e' xs w'. processBodies_loop now bodies acc w = (Inl e', w') \<and>
           outbox w' = outbox w @ map SideMessage xs"
  using assms(1,3)
proof (induction bodies arbitrary: acc w)
  case Nil
  then show ?case by simp
next
  case (Cons ob rest)
  let ?cfg = "bw_processing (derived w)"
  show ?case
  proof (cases ob)
    case None
    with Cons.prems have "Some b \<in> set rest" by simp
    from Cons.IH [OF this Cons.prems(2)] None show ?thesis by simp
  next
    case (Some b')
    show ?thesis
    proof (cases "tracked b'")
      case False
      with Some Cons.prems assms(2) have "Some b \<in> set rest" by auto
      from Cons.IH [OF this Cons.prems(2)] Some False show ?thesis by simp
    next
      case True
      show ?thesis
      proof (cases "processBody b' ?cfg")
        case (Inl e1)
        with True Some show ?thesis
          by (intro exI [of _ e1] exI [of _ "[]"] exI [of _ w]) simp
      next
        case (Inr pb)
        let ?movements = "if opt_trackVelocity (metrics ?cfg)
                          then detectMovements now pb (movement ?cfg) else []"
        let ?w1 = "if length ?movements > 0
                   then w\<lparr>outbox := outbox w @ [SideMessage (MovementMessage ?movements)]\<rparr>
                   else w"
        obtain gestures prev where g:
          "detectGestures now pb ?cfg (previousPositions (derived ?w1)) = (gestures, prev)"
          by (cases "detectGestures now pb ?cfg (previousPositions (derived ?w1))")
        let ?w2 = "?w1\<lparr>derived := (derived ?w1)\<lparr>previousPositions := prev\<rparr>\<rparr>"
        let ?w3 = "if length gestures > 0
                   then ?w2\<lparr>outbox := outbox ?w2 @ [SideMessage (GestureMessage gestures)]\<rparr>
                   else ?w2"
        have step: "processBodies_loop now (ob # rest) acc w =
                      processBodies_loop now rest (acc @ [pb]) ?w3"
          using True Some Inr g by (simp add: Let_def)
        have cfg3: "bw_processing (derived ?w3) = ?cfg" by simp
        from Inr Cons.prems(2) have "b \<noteq> b'" by auto
        with Some Cons.prems(1) have mem: "Some b \<in> set rest" by simp
        have fails: "processBody b (bw_processing (derived ?w3)) = Inl e"
          using Cons.prems(2) cfg3 by simp
        from Cons.IH [OF mem fails, of "acc @ [pb]"]
        obtain e' xs w' where r:
          "processBodies_loop now rest (acc @ [pb]) ?w3 = (Inl e', w')"
          "outbox w' = outbox ?w3 @ map SideMessage xs" by blast
        have ys: "outbox ?w3 = outbox w @
                map SideMessage ((if length ?movements > 0 then [MovementMessage ?movements] else [])
                                 @ (if length gestures > 0 then [GestureMessage gestures] else []))"
          by simp
        show ?thesis
          unfolding step r(1)
          by (intro exI [of _ e'] exI [of _ w']
                exI [of _ "((if length ?movements > 0 then [MovementMessage ?movements] else [])
                            @ (if length gestures > 0 then [GestureMessage gestures] else [])) @ xs"])
             (simp only: r(2) ys map_append append_assoc simp_thms)
      qed
    qed
  qed
qed

text \<open>
  C10. There are valid inputs on which the body worker answers with an error and no
  artifact. Let a frame carry a buffer and a list of bodies, one of them tracked and
  holding a joint that passes the joint filter, has a position and a previous
  position, and has a coordinate equal to \<open>0\<close> in its previous position or in the
  position the smoothing blends from the two. Then the velocity computation on that
  joint throws "Invalid position data", so does \<open>_smoothJoint\<close>, and the worker's
  reply to the frame is an error: after any movement or gesture messages of earlier
  bodies it posts one error reply, and posts no data.
\<close>

theorem zero_coordinate_gives_error_reply:
  assumes "\<not> isProcessing w"
    and "bf_buffer f = Some buf" and "bf_bodies f = Some bodies"
    and "Some b \<in> set bodies" and "tracked b"
    and "joints b = Some js" and "(name, Some j) \<in> set js"
    and "jointFilter (tracking (bw_processing (derived w))) j"
    and "position j = Some p" and "previousPosition j = Some q"
    and "sp = blend (correction (smoothing (bw_processing (derived w)))) p q"
    and "coord_x sp = 0 \<or> coord_y sp = 0 \<or> coord_z sp = 0 \<or>
         coord_x q = 0 \<or> coord_y q = 0 \<or> coord_z q = 0"
  shows "calculateVelocity sp q = Inl InvalidPositionData \<and>
         smoothJoint j (smoothing (bw_processing (derived w))) = Inl InvalidPositionData \<and>
         (\<exists>e xs. outbox (body_worker_onMessage now elapsed (FrameMessage (Some f)) w)
                   = outbox w @ map SideMessage xs @ [ErrorReply e])"
proof -
  let ?cfg = "bw_processing (derived w)"
  let ?w0 = "w\<lparr>isProcessing := True\<rparr>"
  have v: "calculateVelocity sp q = Inl InvalidPositionData"
    using assms(12) by (rule calculateVelocity_zero)
  have s: "smoothJoint j (smoothing ?cfg) = Inl InvalidPositionData"
    using assms(9,10) assms(12) [unfolded assms(11)] by (rule smoothJoint_zero)
  from processBody_fails [OF assms(6,7,8) s]
  obtain e1 where "processBody b ?cfg = Inl e1" by blast
  then have "processBody b (bw_processing (derived ?w0)) = Inl e1" by simp
  from processBodies_loop_fails [OF assms(4,5) this, of now "[]"]
  obtain e xs w' where l: "processBodies_loop now bodies [] ?w0 = (Inl e, w')"
    and o: "outbox w' = outbox ?w0 @ map SideMessage xs" by blast
  have "body_worker_processFrame now (Some f) ?w0 = (Inl e, w')"
    using assms(2,3) l by (simp add: body_worker_processFrame_def)
  then have "outbox (body_worker_onMessage now elapsed (FrameMessage (Some f)) w)
               = outbox w @ map SideMessage xs @ [ErrorReply e]"
    using assms(1) o by (simp add: body_worker_onMessage_def onMessage_def)
  with v s show ?thesis by blast
qed

lemma centred_reply:
  "outbox (body_worker_onMessage 0 0 (FrameMessage (Some centred_frame)) fresh_body_worker)
     = [ErrorReply InvalidPositionData]"
  by (simp add: body_worker_onMessage_def onMessage_def body_worker_processFrame_def
      processBody_def smoothJoint_def calculateVelocity_def blend_def joint_position_def
      centred_frame_def centred_body_def centred_spine_def fresh_body_worker_def
      new_BaseWorker_def default_body_processing_def Let_def)

theorem zero_coordinate_gives_error_reply_witness:
  "\<not> isProcessing fresh_body_worker \<and>
   bf_buffer centred_frame = Some [] \<and>
   bf_bodies centred_frame = Some [Some centred_body] \<and>
   tracked centred_body \<and>
   joints centred_body = Some [(''1'', Some centred_spine)] \<and>
   jointFilter (tracking (bw_processing (derived fresh_body_worker))) centred_spine \<and>
   position centred_spine = Some \<lparr>coord_x = 0, coord_y = 0.5, coord_z = 2\<rparr> \<and>
   previousPosition centred_spine = Some \<lparr>coord_x = 0, coord_y = 0.5, coord_z = 2\<rparr> \<and>
   smoothJoint centred_spine (smoothing (bw_processing (derived fresh_body_worker)))
     = Inl InvalidPositionData \<and>
   outbox (body_worker_onMessage 0 0 (FrameMessage (Some centred_frame)) fresh_body_worker)
     = [ErrorReply InvalidPositionData]"
proof -
  let ?p = "\<lparr>coord_x = 0, coord_y = 0.5, coord_z = 2\<rparr> :: vec3"
  have h: "\<not> isProcessing fresh_body_worker"
    "bf_buffer centred_frame = Some []"
    "bf_bodies centred_frame = Some [Some centred_body]"
    "Some centred_body \<in> set [Some centred_body]"
    "tracked centred_body"
    "joints centred_body = Some [(''1'', Some centred_spine)]"
    "(''1'', Some centred_spine) \<in> set [(''1'', Some centred_spine)]"
    "jointFilter (tracking (bw_processing (derived fresh_body_worker))) centred_spine"
    "position centred_spine = Some ?p"
    "previousPosition centred_spine = Some ?p"
    by (simp_all add: fresh_body_worker_def new_BaseWorker_def centred_frame_def
        centred_body_def centred_spine_def default_body_processing_def)
  have z: "coord_x (blend (correction (smoothing (bw_processing (derived fresh_body_worker)))) ?p ?p) = 0
           \<or> coord_y (blend (correction (smoothing (bw_processing (derived fresh_body_worker)))) ?p ?p) = 0
           \<or> coord_z (blend (correction (smoothing (bw_processing (derived fresh_body_worker)))) ?p ?p) = 0
           \<or> coord_x ?p = 0 \<or> coord_y ?p = 0 \<or> coord_z ?p = 0"
    by simp
  from zero_coordinate_gives_error_reply [OF h refl z, of 0 0] h centred_reply
  show ?thesis by simp
qed

end
